theory Spec2Isabelle
  imports Main "HOL-Library.Word" "HOL-Library.Sublist"
begin

section \<open>Common data\<close>

text \<open>
  Bytes are 8-bit words; a Python \<open>bytes\<close> or \<open>bytearray\<close> value is a list of them.
  Python integers are unbounded, so lengths and header fields are \<open>int\<close>.
  An exception is a value carrying the text that \<open>str(e)\<close> yields: \<open>OverflowError\<close> is
  what \<open>int.to_bytes\<close> raises, \<open>ValueError\<close> what the duty cycles raise themselves, and
  \<open>Exception\<close> stands for any other exception class below \<open>Exception\<close>.
\<close>

type_synonym byte = "8 word"

datatype py_error = OverflowError string | ValueError string | Exception string

fun str_of_error :: "py_error \<Rightarrow> string" where
  "str_of_error (OverflowError msg) = msg"
| "str_of_error (ValueError msg) = msg"
| "str_of_error (Exception msg) = msg"

definition bindE :: "py_error + 'a \<Rightarrow> ('a \<Rightarrow> py_error + 'b) \<Rightarrow> py_error + 'b" where
  "bindE m f = (case m of Inl e \<Rightarrow> Inl e | Inr x \<Rightarrow> f x)"

section \<open>WAV framer\<close>

text \<open>
  \<open>n.to_bytes(length, 'little')\<close>: the \<open>length\<close> least significant base-256 digits of
  \<open>n\<close>, least significant first. Python raises \<open>OverflowError\<close> when \<open>n\<close> is negative
  (the conversion is unsigned) or does not fit into \<open>length\<close> bytes.
\<close>

fun le_digits :: "nat \<Rightarrow> int \<Rightarrow> byte list" where
  "le_digits 0 n = []"
| "le_digits (Suc k) n = word_of_int (n mod 256) # le_digits k (n div 256)"

definition to_bytes :: "int \<Rightarrow> nat \<Rightarrow> py_error + byte list" where
  "to_bytes n len =
     (if n < 0 then Inl (OverflowError ''can't convert negative int to unsigned'')
      else if 256 ^ len \<le> n then Inl (OverflowError ''int too big to convert'')
      else Inr (le_digits len n))"

text \<open>A bytes literal such as \<open>b'RIFF'\<close>.\<close>

definition ascii :: "string \<Rightarrow> byte list" where
  "ascii s = map (\<lambda>c. of_char c) s"

definition RECEIVE_SAMPLE_RATE :: int where
  "RECEIVE_SAMPLE_RATE = 24000"

text \<open>
  \<open>create_wav_header(data_length, sample_rate, channels, sample_width)\<close>. Each
  \<open>header.extend(x.to_bytes(...))\<close> either appends or raises; the first raise ends the call.
\<close>

definition create_wav_header :: "int \<Rightarrow> int \<Rightarrow> int \<Rightarrow> int \<Rightarrow> py_error + byte list" where
  "create_wav_header data_length sample_rate channels sample_width =
     bindE (to_bytes (data_length + 36) 4) (\<lambda>riff_size.
     bindE (to_bytes 16 4) (\<lambda>fmt_size.
     bindE (to_bytes 1 2) (\<lambda>audio_format.
     bindE (to_bytes channels 2) (\<lambda>channels_b.
     bindE (to_bytes sample_rate 4) (\<lambda>sample_rate_b.
     bindE (to_bytes (sample_rate * channels * sample_width) 4) (\<lambda>byte_rate_b.
     bindE (to_bytes (channels * sample_width) 2) (\<lambda>block_align_b.
     bindE (to_bytes (sample_width * 8) 2) (\<lambda>bits_per_sample_b.
     bindE (to_bytes data_length 4) (\<lambda>data_length_b.
       Inr (ascii ''RIFF'' @ riff_size @ ascii ''WAVE''
            @ ascii ''fmt '' @ fmt_size @ audio_format @ channels_b @ sample_rate_b
            @ byte_rate_b @ block_align_b @ bits_per_sample_b
            @ ascii ''data'' @ data_length_b))))))))))"

text \<open>
  The framing step of \<open>play_audio\<close>: the header for \<open>len(audio_data)\<close> at the receive
  sample rate, mono, two bytes per sample, followed by the payload.
\<close>

definition wav_frame :: "byte list \<Rightarrow> py_error + byte list" where
  "wav_frame audio_data =
     bindE (create_wav_header (int (length audio_data)) RECEIVE_SAMPLE_RATE 1 2)
       (\<lambda>wav_header. Inr (wav_header @ audio_data))"

subsection \<open>Reading a header back\<close>

text \<open>
  The reader of the canonical 44-byte RIFF/WAVE layout against which the round trip is
  stated: \<open>int.from_bytes(bs, 'little')\<close> on the slices at the standard offsets. It accepts a
  container only if the four tags are in place.
\<close>

fun from_bytes :: "byte list \<Rightarrow> int" where
  "from_bytes [] = 0"
| "from_bytes (b # bs) = uint b + 256 * from_bytes bs"

definition slice :: "'a list \<Rightarrow> nat \<Rightarrow> nat \<Rightarrow> 'a list" where
  "slice xs i j = take (j - i) (drop i xs)"

record wav_info =
  wav_riff_size :: int
  wav_fmt_size :: int
  wav_audio_format :: int
  wav_channels :: int
  wav_sample_rate :: int
  wav_byte_rate :: int
  wav_block_align :: int
  wav_bits_per_sample :: int
  wav_data_length :: int

definition parse_wav_header :: "byte list \<Rightarrow> wav_info option" where
  "parse_wav_header bs =
     (if length bs < 44 then None
      else if slice bs 0 4 \<noteq> ascii ''RIFF'' \<or> slice bs 8 12 \<noteq> ascii ''WAVE''
              \<or> slice bs 12 16 \<noteq> ascii ''fmt '' \<or> slice bs 36 40 \<noteq> ascii ''data'' then None
      else Some \<lparr> wav_riff_size = from_bytes (slice bs 4 8),
                  wav_fmt_size = from_bytes (slice bs 16 20),
                  wav_audio_format = from_bytes (slice bs 20 22),
                  wav_channels = from_bytes (slice bs 22 24),
                  wav_sample_rate = from_bytes (slice bs 24 28),
                  wav_byte_rate = from_bytes (slice bs 28 32),
                  wav_block_align = from_bytes (slice bs 32 34),
                  wav_bits_per_sample = from_bytes (slice bs 34 36),
                  wav_data_length = from_bytes (slice bs 40 44) \<rparr>)"


section \<open>Audio relay engine\<close>

text \<open>
  The objects the engine handles are opaque: an upstream session handle, the context
  manager that \<open>client.aio.live.connect\<close> returns, and a WebSocket connection are
  identified by numbers. Every such object is truthy in Python.
\<close>

type_synonym handle = nat
type_synonym session_context = nat
type_synonym client = nat

text \<open>
  An outbound frame is the dictionary \<open>{"data": ..., "mime_type": ...}\<close> that the WebSocket
  handler enqueues. A dictionary with two keys is truthy, so the send loop's
  \<open>if content:\<close> holds for every frame.
\<close>

record frame =
  frame_data :: "byte list"
  mime_type :: string

text \<open>
  The message pushed to clients: \<open>json.dumps({"type": "audio", "format": "audio/wav",
  "data": <base64 of wav_data>})\<close>. The JSON text and the base64 text are library encodings
  of the three fields; the record keeps the fields, with the payload as bytes.
\<close>

record envelope =
  msg_type :: string
  msg_format :: string
  msg_data :: "byte list"

text \<open>
  What a method does beyond changing the engine is returned as a list of events, in the
  order of execution: logger calls, sleeps (in milliseconds), writes of the running flag
  (which the other duty cycles poll), and calls on the upstream service, the clients, the
  background thread and the session lock. A call carries \<open>True\<close> when it returned and
  \<open>False\<close> when it raised.
\<close>

datatype level = Info | Warning | Error

datatype event =
    Log level string
  | Sleep nat
  | SetRunning bool
  | Connect bool
  | Aexit session_context bool
  | Send frame bool
  | WsSend client envelope bool
  | WsClose client bool
  | ThreadStart nat
  | ThreadJoin nat nat
  | Acquire
  | Release

fun is_log :: "event \<Rightarrow> bool" where
  "is_log (Log l msg) = True"
| "is_log e = False"

text \<open>The events other than logger calls.\<close>

definition effects :: "event list \<Rightarrow> event list" where
  "effects evs = filter (\<lambda>e. \<not> is_log e) evs"

text \<open>
  \<open>AudioLoop\<close>. \<open>session_ctx\<close> is the attribute \<open>_session_ctx\<close>; \<open>None\<close> also stands for
  the attribute not being set yet (\<open>hasattr\<close> false), which \<open>stop\<close> treats alike. The two
  \<open>asyncio.Queue\<close>s are lists with the head as the next item to get. The fields \<open>client\<close>,
  \<open>_processing_task\<close> and \<open>is_serverless\<close> are read by none of the methods below.
\<close>

record engine =
  session :: "handle option"
  session_ctx :: "session_context option"
  is_running :: bool
  audio_in_queue :: "byte list list"
  out_queue :: "frame list"

definition AudioLoop_init :: engine where
  "AudioLoop_init =
     \<lparr> session = None, session_ctx = None, is_running = False,
       audio_in_queue = [], out_queue = [] \<rparr>"

subsection \<open>Text helpers\<close>

text \<open>\<open>str(n)\<close> for a natural number, as the f-strings of the log messages print it.\<close>

definition digit_char :: "nat \<Rightarrow> char" where
  "digit_char d = char_of (48 + d)"

function str_nat :: "nat \<Rightarrow> string" where
  "str_nat n = (if n < 10 then [digit_char n] else str_nat (n div 10) @ [digit_char (n mod 10)])"
  by pat_completeness auto
termination
  by (relation "measure id") auto

declare str_nat.simps [simp del]

text \<open>
  \<open>"timeout" in str(e).lower()\<close>: lower-casing of the ASCII letters and substring search.
\<close>

definition lower_char :: "char \<Rightarrow> char" where
  "lower_char c =
     (let n = (of_char c :: nat) in if 65 \<le> n \<and> n \<le> 90 then char_of (n + 32) else c)"

definition lower :: "string \<Rightarrow> string" where
  "lower s = map lower_char s"

fun starts_with :: "'a list \<Rightarrow> 'a list \<Rightarrow> bool" where
  "starts_with [] ys = True"
| "starts_with (x # xs) [] = False"
| "starts_with (x # xs) (y # ys) = (x = y \<and> starts_with xs ys)"

fun contains :: "'a list \<Rightarrow> 'a list \<Rightarrow> bool" where
  "contains needle [] = (needle = [])"
| "contains needle (y # ys) = (starts_with needle (y # ys) \<or> contains needle ys)"

definition is_timeout :: "string \<Rightarrow> bool" where
  "is_timeout e = contains ''timeout'' (lower e)"

subsection \<open>Connecting\<close>

text \<open>
  One connect attempt is \<open>self._session_ctx = self.client.aio.live.connect(...)\<close> followed by
  \<open>self.session = await self._session_ctx.__aenter__()\<close>. The upstream service decides its
  outcome: both calls return (\<open>Entered\<close>), or one of them raises; \<open>Failed (Some c) e\<close> is
  \<open>__aenter__\<close> raising after the context \<open>c\<close> was stored, \<open>Failed None e\<close> is
  \<open>live.connect\<close> raising. The service is a function from the number of earlier attempts
  of this call to the outcome of the next one.
\<close>

datatype connect_outcome = Entered session_context handle | Failed "session_context option" string

function connect_loop ::
  "(nat \<Rightarrow> connect_outcome) \<Rightarrow> int \<Rightarrow> nat \<Rightarrow> engine \<Rightarrow> bool \<times> engine \<times> event list" where
  "connect_loop upstream max_retries retry_count s =
     (if int retry_count < max_retries then
        (case upstream retry_count of
           Entered c h \<Rightarrow>
             (True,
              s\<lparr>session_ctx := Some c, session := Some h, is_running := True\<rparr>,
              [Log Info (''Connecting to Gemini API (attempt '' @ str_nat (retry_count + 1) @ '')''),
               Connect True, SetRunning True,
               Log Info ''Successfully connected to Gemini API''])
         | Failed c e \<Rightarrow>
             (case connect_loop upstream max_retries (retry_count + 1)
                     (s\<lparr>session_ctx := (case c of None \<Rightarrow> session_ctx s | Some x \<Rightarrow> Some x)\<rparr>) of
                (r, s', evs) \<Rightarrow>
                  (r, s',
                   [Log Info (''Connecting to Gemini API (attempt '' @ str_nat (retry_count + 1) @ '')''),
                    Connect False,
                    Log Error (''Connection attempt '' @ str_nat (retry_count + 1) @ '' failed: '' @ e),
                    Sleep 1000] @ evs)))
      else (False, s, [Log Error ''Failed to connect to Gemini API after maximum retries'']))"
  by pat_completeness auto
termination
  by (relation "measure (\<lambda>(upstream, max_retries, retry_count, s). nat (max_retries - int retry_count))")
     auto

declare connect_loop.simps [simp del]

definition connect_with_retry ::
  "(nat \<Rightarrow> connect_outcome) \<Rightarrow> int \<Rightarrow> engine \<Rightarrow> bool \<times> engine \<times> event list" where
  "connect_with_retry upstream max_retries s = connect_loop upstream max_retries 0 s"

definition MAX_RETRIES :: int where
  "MAX_RETRIES = 3"

subsection \<open>Stopping\<close>

text \<open>\<open>_clear_queues\<close>: \<open>get_nowait\<close> until the queue is empty, for both queues.\<close>

fun drain :: "'a list \<Rightarrow> 'a list" where
  "drain [] = []"
| "drain (x # q) = drain q"

definition clear_queues :: "engine \<Rightarrow> engine" where
  "clear_queues s = s\<lparr>audio_in_queue := drain (audio_in_queue s), out_queue := drain (out_queue s)\<rparr>"

text \<open>
  \<open>stop\<close>. The argument is what \<open>__aexit__\<close> does when it is called: \<open>None\<close> when it returns,
  \<open>Some e\<close> when it raises an exception with text \<open>e\<close>. The \<open>finally\<close> clause runs in both
  cases.
\<close>

definition stop :: "string option \<Rightarrow> engine \<Rightarrow> engine \<times> event list" where
  "stop aexit_error s =
     (let s1 = s\<lparr>is_running := False\<rparr>;
          ev1 = [Log Info ''Stopping audio processing'', SetRunning False, Sleep 500];
          (s2, ev2) =
            (case (session_ctx s1, session s1) of
               (Some c, Some h) \<Rightarrow>
                 (s1\<lparr>session := None, session_ctx := None\<rparr>,
                  (case aexit_error of
                     None \<Rightarrow> [Log Info ''Closing Gemini API session'', Aexit c True,
                               Log Info ''Gemini API session closed successfully'']
                   | Some e \<Rightarrow> [Log Info ''Closing Gemini API session'', Aexit c False,
                                 Log Error (''Error closing session: '' @ e)]))
             | _ \<Rightarrow> (s1, []))
      in (clear_queues s2, ev1 @ ev2 @ [Log Info ''Audio processing stopped completely'']))"


subsection \<open>Reading event lists and engine states\<close>

fun is_connect :: "event \<Rightarrow> bool" where
  "is_connect (Connect ok) = True"
| "is_connect e = False"

text \<open>The number of connect attempts in a run.\<close>

definition connect_attempts :: "event list \<Rightarrow> nat" where
  "connect_attempts evs = length (filter is_connect evs)"

text \<open>
  An engine never holds a session handle without the context manager it came from:
  \<open>connect_with_retry\<close> stores the context before it enters it, and \<open>stop\<close> drops both
  together. Every method keeps this property (lemmas \<open>*_engine_ok\<close> below).
\<close>

definition engine_ok :: "engine \<Rightarrow> bool" where
  "engine_ok s = (session s = None \<or> session_ctx s \<noteq> None)"


subsection \<open>Duty cycles\<close>

text \<open>
  Each duty cycle is a loop \<open>while self.is_running\<close> that runs until the flag is cleared or
  an exception ends it, so it need not return. Its model runs the loop against a finite
  script of what the surroundings do, pass by pass, and reports \<open>Exited\<close> when the
  coroutine has returned and \<open>Looping\<close> when the script ended with the loop still going.
\<close>

datatype loop_status = Looping | Exited

text \<open>
  The WebSocket handler's \<open>if audio_loop and audio_loop.is_running:
  asyncio.run(audio_loop.out_queue.put(frame))\<close>, seen from the engine.
\<close>

definition enqueue_frame :: "frame \<Rightarrow> engine \<Rightarrow> engine" where
  "enqueue_frame f s = (if is_running s then s\<lparr>out_queue := out_queue s @ [f]\<rparr> else s)"

text \<open>
  The script of the send loop: a handler offers a frame; the loop makes one pass, in which
  \<open>session.send\<close> (if it is called) returns or raises; or another task clears the running
  flag. A frame put while a pass is under way lands behind the frame that pass takes, so
  passes and offers may be taken as atomic.
\<close>

datatype send_step = Offer frame | Poll "string option" | Halt

fun send_loop :: "send_step list \<Rightarrow> engine \<Rightarrow> loop_status \<times> engine \<times> event list" where
  "send_loop [] s = (Looping, s, [])"
| "send_loop (Offer f # sch) s = send_loop sch (enqueue_frame f s)"
| "send_loop (Halt # sch) s = send_loop sch (s\<lparr>is_running := False\<rparr>)"
| "send_loop (Poll r # sch) s =
     (if \<not> is_running s then (Exited, s, [])
      else
        (case out_queue s of
           [] \<Rightarrow> (case send_loop sch s of (st, s', evs) \<Rightarrow> (st, s', Sleep 10 # evs))
         | content # rest \<Rightarrow>
             (case r of
                None \<Rightarrow>
                  (case send_loop sch (s\<lparr>out_queue := rest\<rparr>) of
                     (st, s', evs) \<Rightarrow> (st, s', Send content True # Sleep 10 # evs))
              | Some e \<Rightarrow>
                  (Exited, s\<lparr>out_queue := rest, is_running := False\<rparr>,
                   [Send content False, Log Error (''Error in send_realtime: '' @ e),
                    SetRunning False]))))"

definition send_realtime :: "send_step list \<Rightarrow> engine \<Rightarrow> loop_status \<times> engine \<times> event list" where
  "send_realtime sch s =
     (if session s = None \<or> \<not> is_running s then
        (Exited, s\<lparr>is_running := False\<rparr>,
         [Log Error ''Error in send_realtime: Session not initialized or not running'',
          SetRunning False])
      else send_loop sch s)"

text \<open>The frames a run forwarded upstream, the frames a script offers, and its passes.\<close>

fun forwarded :: "event list \<Rightarrow> frame list" where
  "forwarded [] = []"
| "forwarded (Send f ok # evs) = (if ok then f # forwarded evs else forwarded evs)"
| "forwarded (e # evs) = forwarded evs"

fun offered :: "send_step list \<Rightarrow> frame list" where
  "offered [] = []"
| "offered (Offer f # sch) = f # offered sch"
| "offered (x # sch) = offered sch"

fun polls :: "send_step list \<Rightarrow> nat" where
  "polls [] = 0"
| "polls (Poll r # sch) = Suc (polls sch)"
| "polls (x # sch) = polls sch"

text \<open>A script in which no send raises and nobody clears the flag.\<close>

fun undisturbed :: "send_step list \<Rightarrow> bool" where
  "undisturbed [] = True"
| "undisturbed (Offer f # sch) = undisturbed sch"
| "undisturbed (Poll r # sch) = (r = None \<and> undisturbed sch)"
| "undisturbed (Halt # sch) = False"

text \<open>
  The receive loop. A turn is the responses that \<open>async for response in turn\<close> yields
  (each with its \<open>data\<close>, which may be \<open>None\<close>) and how the iteration ends: the turn is
  complete, the task is cancelled, or an exception with some text is raised.
\<close>

datatype turn_end = TurnDone | Cancelled | Raised string

fun payloads :: "byte list option list \<Rightarrow> byte list list" where
  "payloads [] = []"
| "payloads (None # rs) = payloads rs"
| "payloads (Some d # rs) = (if d = [] then payloads rs else d # payloads rs)"

fun receive_loop ::
  "(byte list option list \<times> turn_end) list \<Rightarrow> engine \<Rightarrow> loop_status \<times> engine \<times> event list" where
  "receive_loop [] s = (Looping, s, [])"
| "receive_loop ((responses, ending) # turns) s =
     (if \<not> is_running s then (Exited, s, [])
      else
        (case ending of
           TurnDone \<Rightarrow>
             (case receive_loop turns (s\<lparr>audio_in_queue := audio_in_queue s @ payloads responses\<rparr>) of
                (st, s', evs) \<Rightarrow> (st, s', Sleep 10 # evs))
         | Cancelled \<Rightarrow>
             (Exited, s\<lparr>audio_in_queue := audio_in_queue s @ payloads responses\<rparr>,
              [Log Info ''Receive audio operation cancelled''])
         | Raised e \<Rightarrow>
             (if is_timeout e then
                (case receive_loop turns (s\<lparr>audio_in_queue := audio_in_queue s @ payloads responses\<rparr>) of
                   (st, s', evs) \<Rightarrow>
                     (st, s', Log Error (''Error receiving audio response: '' @ e) # Sleep 1000 # evs))
              else
                (Exited, s\<lparr>audio_in_queue := audio_in_queue s @ payloads responses\<rparr>,
                 [Log Error (''Error receiving audio response: '' @ e)]))))"

definition receive_audio ::
  "(byte list option list \<times> turn_end) list \<Rightarrow> engine \<Rightarrow> loop_status \<times> engine \<times> event list" where
  "receive_audio turns s =
     (if session s = None \<or> \<not> is_running s then
        (Exited, s\<lparr>is_running := False\<rparr>,
         [Log Error ''Error in receive_audio: Session not initialized or not running'',
          SetRunning False])
      else receive_loop turns s)"

text \<open>
  The broadcast loop. \<open>ws_clients\<close> is a Python set; \<open>list(ws_clients)\<close> lists it in some
  order without repetition, and the registry is modelled as such a list. What
  \<open>ws.send(message)\<close> does is given per client: \<open>None\<close> when it returns, \<open>Some e\<close> when it
  raises. The registry is a global that \<open>play_audio\<close> could write, so a pass returns it.
\<close>

definition audio_envelope :: "byte list \<Rightarrow> envelope" where
  "audio_envelope wav_data =
     \<lparr> msg_type = ''audio'', msg_format = ''audio/wav'', msg_data = wav_data \<rparr>"

fun broadcast :: "(client \<Rightarrow> string option) \<Rightarrow> envelope \<Rightarrow> client list \<Rightarrow> event list" where
  "broadcast ws_send message [] = []"
| "broadcast ws_send message (ws # rest) =
     (case ws_send ws of
        None \<Rightarrow> WsSend ws message True # broadcast ws_send message rest
      | Some e \<Rightarrow>
          WsSend ws message False # Log Error (''Error sending audio to client: '' @ e)
            # broadcast ws_send message rest)"

definition play_audio_pass ::
  "(client \<Rightarrow> string option) \<Rightarrow> engine \<times> client list \<Rightarrow> (engine \<times> client list) \<times> event list" where
  "play_audio_pass ws_send st =
     (case st of (s, ws_clients) \<Rightarrow>
        (case audio_in_queue s of
           [] \<Rightarrow> ((s, ws_clients), [Sleep 10])
         | audio_data # rest \<Rightarrow>
             ((s\<lparr>audio_in_queue := rest\<rparr>, ws_clients),
              (if audio_data \<noteq> [] \<and> ws_clients \<noteq> [] then
                 (case wav_frame audio_data of
                    Inl e \<Rightarrow> [Log Error (''Error preparing audio data: '' @ str_of_error e)]
                  | Inr wav_data \<Rightarrow> broadcast ws_send (audio_envelope wav_data) ws_clients)
               else []) @ [Sleep 10])))"

fun play_audio_loop ::
  "(client \<Rightarrow> string option) list \<Rightarrow> engine \<times> client list
     \<Rightarrow> loop_status \<times> (engine \<times> client list) \<times> event list" where
  "play_audio_loop [] st = (Looping, st, [])"
| "play_audio_loop (ws_send # sch) st =
     (if \<not> is_running (fst st) then (Exited, st, [])
      else
        (case play_audio_pass ws_send st of
           (st1, ev1) \<Rightarrow>
             (case play_audio_loop sch st1 of (status, st2, ev2) \<Rightarrow> (status, st2, ev1 @ ev2))))"

definition play_audio ::
  "(client \<Rightarrow> string option) list \<Rightarrow> engine \<times> client list
     \<Rightarrow> loop_status \<times> (engine \<times> client list) \<times> event list" where
  "play_audio sch st =
     (case play_audio_loop sch st of
        (status, st', evs) \<Rightarrow>
          (status, st', Log Info ''Starting audio playback via WebSockets'' # evs))"

text \<open>The clients a run delivered a message to, in the order of delivery.\<close>

fun delivered :: "event list \<Rightarrow> (client \<times> envelope) list" where
  "delivered [] = []"
| "delivered (WsSend ws message ok # evs) =
     (if ok then (ws, message) # delivered evs else delivered evs)"
| "delivered (e # evs) = delivered evs"


section \<open>Session manager and WebSocket endpoint\<close>

text \<open>
  The module globals. \<open>audio_loop\<close> holds the engine the handlers work on; an engine that
  the handlers have dropped (\<open>audio_loop = None\<close>) is still referenced by the background
  thread that runs it, and \<open>retired\<close> keeps those engines, oldest first. A thread object
  is identified by a number, taken from the count of threads created so far. The registry
  \<open>ws_clients\<close> lists the members of the Python set without repetition.
\<close>

record manager =
  audio_loop :: "engine option"
  audio_thread :: "nat option"
  ws_clients :: "client list"
  retired :: "engine list"
  threads_started :: nat

definition manager_init :: manager where
  "manager_init =
     \<lparr> audio_loop = None, audio_thread = None, ws_clients = [], retired = [],
       threads_started = 0 \<rparr>"

text \<open>
  What a handler meets outside the module: the deployment flag \<open>IN_VERCEL\<close>, whether
  \<open>genai.Client(...)\<close> raises, what \<open>audio_thread.is_alive()\<close> answers, whether \<open>__aexit__\<close>
  raises during \<open>stop\<close>, and for which clients \<open>ws.close()\<close> raises.
\<close>

record env =
  IN_VERCEL :: bool
  client_ctor_error :: "string option"
  thread_alive :: bool
  aexit_raises :: "string option"
  ws_close_raises :: "client \<Rightarrow> bool"

datatype http_method = POST | OPTIONS

record request =
  req_method :: http_method
  host :: string
  is_secure :: bool

text \<open>
  A response is the JSON object given to \<open>jsonify\<close>, as the list of its members, or the
  CORS preflight response with its \<open>Access-Control-Allow-Methods\<close> header.
\<close>

datatype json = JString string | JBool bool | JObject "(string \<times> json) list"

datatype response = Jsonify "(string \<times> json) list" | Preflight string

text \<open>\<open>create_audio_loop\<close>: \<open>None\<close> in serverless mode, else a new engine, unless the client
  constructor raises.\<close>

definition create_audio_loop :: "env \<Rightarrow> py_error + (engine option \<times> event list)" where
  "create_audio_loop env =
     (if IN_VERCEL env then
        Inr (None, [Log Info ''Limited audio functionality in serverless environment''])
      else
        (case client_ctor_error env of
           Some e \<Rightarrow> Inl (Exception e)
         | None \<Rightarrow> Inr (Some AudioLoop_init, [])))"

text \<open>
  \<open>audio_thread = Thread(target=lambda: run_async_task(audio_loop.run, ...), daemon=True)\<close>
  and \<open>audio_thread.start()\<close>. The thread runs \<open>run\<close>, which begins with
  \<open>connect_with_retry\<close>; what it does to its engine is described by the engine's methods.
\<close>

definition start_thread :: "manager \<Rightarrow> manager \<times> event list" where
  "start_thread m =
     (m\<lparr>audio_thread := Some (threads_started m), threads_started := Suc (threads_started m)\<rparr>,
      [ThreadStart (threads_started m)])"

text \<open>\<open>if audio_thread and audio_thread.is_alive(): audio_thread.join(timeout=2.0)\<close>.\<close>

definition join_thread :: "env \<Rightarrow> manager \<Rightarrow> event list" where
  "join_thread env m =
     (case audio_thread m of
        None \<Rightarrow> []
      | Some t \<Rightarrow> if thread_alive env then [ThreadJoin t 2000] else [])"

subsection \<open>\<open>/start_voice\<close>\<close>

text \<open>
  The first block under the lock: \<open>if audio_loop:\<close> stop it, join its thread, and in the
  \<open>finally\<close> clause drop both globals and sleep half a second. \<open>stop\<close> catches the one call
  in it that can raise and a \<open>join\<close> with a timeout returns, so the handler's \<open>except\<close>
  clause is not entered and has no branch here.
\<close>

definition retire_existing :: "env \<Rightarrow> manager \<Rightarrow> manager \<times> event list" where
  "retire_existing env m =
     (case audio_loop m of
        None \<Rightarrow> (m, [])
      | Some e \<Rightarrow>
          (case stop (aexit_raises env) e of
             (e', evs) \<Rightarrow>
               (m\<lparr>audio_loop := None, audio_thread := None, retired := retired m @ [e']\<rparr>,
                evs @ [Log Info ''Existing therapy session terminated before starting new one'']
                  @ join_thread env m @ [Sleep 500])))"

text \<open>The second block: create the engine, start its thread, answer.\<close>

definition launch_session :: "env \<Rightarrow> request \<Rightarrow> manager \<Rightarrow> response \<times> manager \<times> event list" where
  "launch_session env req m =
     (case create_audio_loop env of
        Inl e \<Rightarrow>
          (Jsonify [(''status'', JString ''error''), (''message'', JString (str_of_error e))],
           m, [Log Error (''Error starting voice service: '' @ str_of_error e)])
      | Inr (loop, ev1) \<Rightarrow>
          (case start_thread (m\<lparr>audio_loop := loop\<rparr>) of
             (m', ev2) \<Rightarrow>
               (Jsonify
                  [(''status'', JString ''started''),
                   (''websocket'',
                    JObject
                      [(''url'',
                        JString ((if is_secure req then ''wss://'' else ''ws://'')
                                   @ host req @ ''/audio-stream'')),
                       (''protocol'', JString ''audio-stream'')])],
                m', ev1 @ ev2 @ [Log Info ''Therapy session started''])))"

definition start_voice :: "env \<Rightarrow> request \<Rightarrow> manager \<Rightarrow> response \<times> manager \<times> event list" where
  "start_voice env req m =
     (if req_method req = OPTIONS then (Preflight ''POST'', m, [])
      else if IN_VERCEL env then
        (Jsonify
           [(''status'', JString ''started''), (''vercel'', JBool True),
            (''info'', JString ''Limited functionality in serverless environment.'')],
         m, [])
      else
        (case retire_existing env m of
           (m1, ev1) \<Rightarrow>
             (case launch_session env req m1 of
                (resp, m2, ev2) \<Rightarrow> (resp, m2, Acquire # ev1 @ ev2 @ [Release]))))"

subsection \<open>\<open>/terminate_voice\<close>\<close>

text \<open>\<open>for ws in list(ws_clients): try: ws.close() except: pass\<close>.\<close>

fun close_all :: "(client \<Rightarrow> bool) \<Rightarrow> client list \<Rightarrow> event list" where
  "close_all raises [] = []"
| "close_all raises (ws # rest) = WsClose ws (\<not> raises ws) # close_all raises rest"

definition terminate_voice :: "env \<Rightarrow> request \<Rightarrow> manager \<Rightarrow> response \<times> manager \<times> event list" where
  "terminate_voice env req m =
     (if req_method req = OPTIONS then (Preflight ''POST'', m, [])
      else if IN_VERCEL env then
        (Jsonify [(''status'', JString ''terminated''), (''vercel'', JBool True)], m, [])
      else
        (case audio_loop m of
           None \<Rightarrow> (Jsonify [(''status'', JString ''terminated'')], m, [Acquire, Release])
         | Some e \<Rightarrow>
             (case stop (aexit_raises env) e of
                (e', evs) \<Rightarrow>
                  (Jsonify [(''status'', JString ''terminated'')],
                   m\<lparr>audio_loop := None, audio_thread := None, ws_clients := [],
                     retired := retired m @ [e']\<rparr>,
                   Acquire # evs @ [Log Info ''Therapy session terminated'']
                     @ join_thread env m
                     @ close_all (ws_close_raises env) (ws_clients m)
                     @ [Release]))))"

subsection \<open>\<open>/audio-stream\<close>\<close>

text \<open>
  What \<open>ws.receive()\<close> returns, sorted by what the library calls \<open>json.loads\<close> and
  \<open>base64.b64decode\<close> do with it:
  \<^item> \<open>NoMessage\<close>: a falsy value;
  \<^item> \<open>AudioJson\<close>: a JSON object of type \<open>audio\<close>, with the bytes its \<open>data\<close> decodes to and
    its \<open>format\<close>, if it has one;
  \<^item> \<open>ControlStop\<close>: the JSON object \<open>{"type": "control", "command": "stop"}\<close>;
  \<^item> \<open>OtherJson\<close>: a JSON object of another type or command;
  \<^item> \<open>Malformed\<close>: a text that parses as JSON but whose handling raises (not an object,
    no \<open>data\<close>, bad base64), with the text of the exception;
  \<^item> \<open>Undecodable\<close>: a binary payload that \<open>json.loads\<close> cannot decode as text; it raises
    \<open>UnicodeDecodeError\<close>, which is not a \<open>JSONDecodeError\<close>, so the inner \<open>except\<close> clause
    does not catch it;
  \<^item> \<open>RawAudio\<close>: a payload on which \<open>json.loads\<close> raises \<open>JSONDecodeError\<close>; only this one
    is taken as raw audio.
\<close>

datatype ws_message =
    NoMessage
  | AudioJson "byte list" "string option"
  | ControlStop
  | OtherJson
  | Malformed string
  | Undecodable "byte list" string
  | RawAudio "byte list"

definition ws_register :: "client \<Rightarrow> manager \<Rightarrow> manager" where
  "ws_register ws m =
     m\<lparr>ws_clients := (if ws \<in> set (ws_clients m) then ws_clients m else ws_clients m @ [ws])\<rparr>"

definition ws_deregister :: "client \<Rightarrow> manager \<Rightarrow> manager" where
  "ws_deregister ws m = m\<lparr>ws_clients := removeAll ws (ws_clients m)\<rparr>"

text \<open>
  The start of the handler, up to the message loop: the socket is added to the registry,
  and \<open>if not audio_loop or not audio_loop.is_running:\<close> a warning is logged and, under
  the inner \<open>if not audio_loop:\<close>, an engine is created and its thread started. The first
  component of the result is the exception that left the \<open>try\<close> block, if any.
\<close>

definition ws_open :: "env \<Rightarrow> client \<Rightarrow> manager \<Rightarrow> py_error option \<times> manager \<times> event list" where
  "ws_open env ws m =
     (let m0 = ws_register ws m;
          ev0 = [Log Info ''New WebSocket client connected for therapy session'']
      in case audio_loop m0 of
           Some e \<Rightarrow>
             (if is_running e then (None, m0, ev0)
              else (None, m0,
                    ev0 @ [Log Warning ''Client connected but no active therapy session. Starting one.'']))
         | None \<Rightarrow>
             (case create_audio_loop env of
                Inl err \<Rightarrow>
                  (Some err, m0,
                   ev0 @ [Log Warning ''Client connected but no active therapy session. Starting one.''])
              | Inr (loop, ev1) \<Rightarrow>
                  (case start_thread (m0\<lparr>audio_loop := loop\<rparr>) of
                     (m1, ev2) \<Rightarrow>
                       (None, m1,
                        ev0 @ [Log Warning ''Client connected but no active therapy session. Starting one.'']
                          @ ev1 @ ev2))))"

text \<open>The handler's guarded put into the outbound queue of the current engine.\<close>

definition put_frame :: "frame \<Rightarrow> manager \<Rightarrow> manager" where
  "put_frame f m =
     (case audio_loop m of
        None \<Rightarrow> m
      | Some e \<Rightarrow> m\<lparr>audio_loop := Some (enqueue_frame f e)\<rparr>)"

text \<open>One pass of \<open>while True: message = ws.receive() ...\<close> for a message received.\<close>

fun ws_handle_message ::
  "env \<Rightarrow> ws_message \<Rightarrow> manager \<Rightarrow> py_error option \<times> manager \<times> event list" where
  "ws_handle_message env NoMessage m = (None, m, [])"
| "ws_handle_message env (AudioJson audio_bytes fmt) m =
     (None,
      put_frame \<lparr>frame_data = audio_bytes,
                 mime_type = (case fmt of None \<Rightarrow> ''audio/pcm'' | Some f \<Rightarrow> f)\<rparr> m,
      [])"
| "ws_handle_message env ControlStop m =
     (case audio_loop m of
        None \<Rightarrow> (None, m, [Log Info ''Client requested therapy session stop''])
      | Some e \<Rightarrow>
          (case stop (aexit_raises env) e of
             (e', evs) \<Rightarrow>
               (None, m\<lparr>audio_loop := Some e'\<rparr>,
                Log Info ''Client requested therapy session stop'' # evs)))"
| "ws_handle_message env OtherJson m = (None, m, [])"
| "ws_handle_message env (Malformed e) m = (Some (Exception e), m, [])"
| "ws_handle_message env (Undecodable message e) m = (Some (Exception e), m, [])"
| "ws_handle_message env (RawAudio message) m =
     (None, put_frame \<lparr>frame_data = message, mime_type = ''audio/pcm''\<rparr> m, [])"

text \<open>
  The message loop ends only by an exception: one raised while a message is handled, or
  the one \<open>ws.receive()\<close> raises when the connection is closed, after the messages of the
  script.
\<close>

fun ws_message_loop ::
  "env \<Rightarrow> ws_message list \<Rightarrow> string \<Rightarrow> manager \<Rightarrow> py_error \<times> manager \<times> event list" where
  "ws_message_loop env [] closed m = (Exception closed, m, [])"
| "ws_message_loop env (msg # rest) closed m =
     (case ws_handle_message env msg m of
        (Some err, m1, ev1) \<Rightarrow> (err, m1, ev1)
      | (None, m1, ev1) \<Rightarrow>
          (case ws_message_loop env rest closed m1 of
             (err, m2, ev2) \<Rightarrow> (err, m2, ev1 @ ev2)))"

text \<open>The \<open>except\<close> and \<open>finally\<close> clauses: log the exception, take the socket off the registry.\<close>

definition ws_close :: "py_error \<Rightarrow> client \<Rightarrow> manager \<Rightarrow> manager \<times> event list" where
  "ws_close err ws m =
     (ws_deregister ws m,
      [Log Error (''WebSocket error: '' @ str_of_error err),
       Log Info ''WebSocket client disconnected''])"

definition audio_stream_socket ::
  "env \<Rightarrow> client \<Rightarrow> ws_message list \<Rightarrow> string \<Rightarrow> manager \<Rightarrow> manager \<times> event list" where
  "audio_stream_socket env ws script closed m =
     (case ws_open env ws m of
        (Some err, m1, ev1) \<Rightarrow>
          (case ws_close err ws m1 of (m2, ev2) \<Rightarrow> (m2, ev1 @ ev2))
      | (None, m1, ev1) \<Rightarrow>
          (case ws_message_loop env script closed m1 of
             (err, m2, ev2) \<Rightarrow>
               (case ws_close err ws m2 of (m3, ev3) \<Rightarrow> (m3, ev1 @ ev2 @ ev3))))"

subsection \<open>The background threads\<close>

text \<open>
  The thread of an engine runs \<open>run\<close>, whose first step is \<open>connect_with_retry\<close> with the
  default of three attempts. Dropping an engine from the globals does not end its thread,
  and \<open>connect_with_retry\<close> does not look at the running flag: a connect that is under way
  while \<open>stop\<close> runs finds no handle to close and ends by storing the handle and setting
  the flag, as if it ran after \<open>stop\<close>. The two steps below are that connect, for the
  current engine and for the retired engine number \<open>i\<close>.
\<close>

definition connect_current :: "(nat \<Rightarrow> connect_outcome) \<Rightarrow> manager \<Rightarrow> manager" where
  "connect_current upstream m =
     (case audio_loop m of
        None \<Rightarrow> m
      | Some e \<Rightarrow> m\<lparr>audio_loop := Some (fst (snd (connect_with_retry upstream 3 e)))\<rparr>)"

definition connect_retired :: "nat \<Rightarrow> (nat \<Rightarrow> connect_outcome) \<Rightarrow> manager \<Rightarrow> manager" where
  "connect_retired i upstream m =
     (if i < length (retired m) then
        m\<lparr>retired := (retired m)[i := fst (snd (connect_with_retry upstream 3 (retired m ! i)))]\<rparr>
      else m)"

subsection \<open>Reading manager states\<close>

text \<open>All engines there are, and those whose running flag is set.\<close>

definition sessions :: "manager \<Rightarrow> engine list" where
  "sessions m = retired m @ (case audio_loop m of None \<Rightarrow> [] | Some e \<Rightarrow> [e])"

definition running_sessions :: "manager \<Rightarrow> engine list" where
  "running_sessions m = filter is_running (sessions m)"

text \<open>
  What holds of the globals whenever a handler starts: in serverless mode there is no
  engine (\<open>create_audio_loop\<close> returns \<open>None\<close> and \<open>/start_voice\<close> answers before it creates
  one), and the current engine is well formed. Lemmas \<open>*_manager_ok\<close> below show that the
  handlers keep it.
\<close>

definition manager_ok :: "env \<Rightarrow> manager \<Rightarrow> bool" where
  "manager_ok env m =
     (case audio_loop m of None \<Rightarrow> True | Some e \<Rightarrow> engine_ok e \<and> \<not> IN_VERCEL env)"


section \<open>Properties of the WAV framer\<close>

lemma length_le_digits [simp]: "length (le_digits k n) = k"
  by (induction k arbitrary: n) simp_all

lemma from_bytes_le_digits: "from_bytes (le_digits k n) = n mod 256 ^ k"
proof (induction k arbitrary: n)
  case 0
  show ?case by simp
next
  case (Suc k)
  have "uint (word_of_int (n mod 256) :: byte) = n mod 256"
    by (simp add: uint_word_of_int take_bit_eq_mod)
  moreover have "n mod 256 + 256 * (n div 256 mod 256 ^ k) = n mod (256 * 256 ^ k)"
    using zmod_zmult2_eq [of "256 ^ k" n 256] by simp
  ultimately show ?case using Suc.IH [of "n div 256"] by simp
qed

text \<open>
  \<open>int.from_bytes(n.to_bytes(k, 'little'), 'little') == n\<close> whenever \<open>to_bytes\<close> returns.
\<close>

lemma from_bytes_to_bytes:
  assumes "to_bytes n k = Inr bs"
  shows "length bs = k \<and> from_bytes bs = n"
proof -
  from assms have n: "0 \<le> n" "n < 256 ^ k" and bs: "bs = le_digits k n"
    by (auto simp: to_bytes_def split: if_splits)
  then show ?thesis by (simp add: from_bytes_le_digits)
qed

lemma to_bytes_in_range: "0 \<le> n \<Longrightarrow> n < 256 ^ k \<Longrightarrow> to_bytes n k = Inr (le_digits k n)"
  by (simp add: to_bytes_def)

lemma to_bytes_overflow:
  assumes "256 ^ k \<le> n"
  shows "to_bytes n k = Inl (OverflowError ''int too big to convert'')"
proof -
  have "(0::int) < 256 ^ k" by simp
  with assms have "\<not> n < 0" by linarith
  with assms show ?thesis by (simp add: to_bytes_def)
qed

lemma to_bytes_negative:
  "n < 0 \<Longrightarrow> to_bytes n k = Inl (OverflowError ''can't convert negative int to unsigned'')"
  by (simp add: to_bytes_def)

lemma to_bytes_default_fields:
  "to_bytes 16 4 = Inr (le_digits 4 16)" "to_bytes 1 2 = Inr (le_digits 2 1)"
  "to_bytes 24000 4 = Inr (le_digits 4 24000)" "to_bytes 48000 4 = Inr (le_digits 4 48000)"
  "to_bytes 2 2 = Inr (le_digits 2 2)" "to_bytes 16 2 = Inr (le_digits 2 16)"
  by (simp_all add: to_bytes_def)

lemma create_wav_header_default:
  assumes "0 \<le> L" "L < 2 ^ 32 - 36"
  shows "create_wav_header L 24000 1 2 =
           Inr (ascii ''RIFF'' @ le_digits 4 (L + 36) @ ascii ''WAVE'' @ ascii ''fmt ''
                @ le_digits 4 16 @ le_digits 2 1 @ le_digits 2 1 @ le_digits 4 24000
                @ le_digits 4 48000 @ le_digits 2 2 @ le_digits 2 16
                @ ascii ''data'' @ le_digits 4 L)"
proof -
  have a: "to_bytes (L + 36) 4 = Inr (le_digits 4 (L + 36))"
    using assms by (intro to_bytes_in_range) simp_all
  have b: "to_bytes L 4 = Inr (le_digits 4 L)"
    using assms by (intro to_bytes_in_range) simp_all
  show ?thesis
    unfolding create_wav_header_def by (simp add: a b to_bytes_default_fields bindE_def)
qed

lemma create_wav_header_default_length:
  assumes "0 \<le> L" "L < 2 ^ 32 - 36" "create_wav_header L 24000 1 2 = Inr h"
  shows "length h = 44"
  using assms by (auto simp: create_wav_header_default ascii_def)

lemma create_wav_header_too_long:
  assumes "2 ^ 32 - 36 \<le> L"
  shows "create_wav_header L sr ch sw = Inl (OverflowError ''int too big to convert'')"
proof -
  have "to_bytes (L + 36) 4 = Inl (OverflowError ''int too big to convert'')"
    using assms by (intro to_bytes_overflow) simp
  then show ?thesis by (simp add: create_wav_header_def bindE_def)
qed

lemma create_wav_header_negative:
  assumes "L < 0"
  shows "create_wav_header L 24000 1 2 =
           Inl (OverflowError ''can't convert negative int to unsigned'')"
proof (cases "L + 36 < 0")
  case True
  then have "to_bytes (L + 36) 4 = Inl (OverflowError ''can't convert negative int to unsigned'')"
    by (rule to_bytes_negative)
  then show ?thesis by (simp add: create_wav_header_def bindE_def)
next
  case False
  with assms have a: "to_bytes (L + 36) 4 = Inr (le_digits 4 (L + 36))"
    by (intro to_bytes_in_range) simp_all
  have b: "to_bytes L 4 = Inl (OverflowError ''can't convert negative int to unsigned'')"
    using assms by (rule to_bytes_negative)
  show ?thesis
    unfolding create_wav_header_def by (simp add: a b to_bytes_default_fields bindE_def)
qed

lemma parse_framed:
  assumes "0 \<le> L" "L < 2 ^ 32 - 36"
  shows "parse_wav_header
           ((ascii ''RIFF'' @ le_digits 4 (L + 36) @ ascii ''WAVE'' @ ascii ''fmt ''
                @ le_digits 4 16 @ le_digits 2 1 @ le_digits 2 1 @ le_digits 4 24000
                @ le_digits 4 48000 @ le_digits 2 2 @ le_digits 2 16
                @ ascii ''data'' @ le_digits 4 L) @ payload)
         = Some \<lparr> wav_riff_size = L + 36, wav_fmt_size = 16, wav_audio_format = 1,
                    wav_channels = 1, wav_sample_rate = 24000, wav_byte_rate = 48000,
                    wav_block_align = 2, wav_bits_per_sample = 16, wav_data_length = L \<rparr>"
proof -
  have m: "(L + 36) mod 4294967296 = L + 36" "L mod 4294967296 = L"
    using assms by (simp_all add: mod_pos_pos_trivial)
  show ?thesis
    by (simp add: parse_wav_header_def slice_def ascii_def from_bytes_le_digits m
             del: le_digits.simps)
qed

text \<open>
  C4, as amended. For every raw PCM payload whose length \<open>L\<close> is below \<open>2^32 - 36\<close>, the
  framer returns a header of 44 bytes, the framed container (header followed by payload)
  has length \<open>L + 44\<close>, and reading the header back gives data length \<open>L\<close>, RIFF chunk size
  \<open>L + 36\<close>, sample rate 24000, one channel, 16 bits per sample, byte rate
  \<open>sample_rate * channels * sample_width\<close> and block align \<open>channels * sample_width\<close>.
\<close>

theorem wav_frame_roundtrip:
  assumes "int (length payload) < 2 ^ 32 - 36"
  shows "\<exists>header.
           create_wav_header (int (length payload)) RECEIVE_SAMPLE_RATE 1 2 = Inr header
         \<and> length header = 44
         \<and> wav_frame payload = Inr (header @ payload)
         \<and> length (header @ payload) = length payload + 44
         \<and> parse_wav_header (header @ payload) =
             Some \<lparr> wav_riff_size = int (length payload) + 36, wav_fmt_size = 16,
                    wav_audio_format = 1, wav_channels = 1, wav_sample_rate = 24000,
                    wav_byte_rate = 24000 * 1 * 2, wav_block_align = 1 * 2,
                    wav_bits_per_sample = 16, wav_data_length = int (length payload) \<rparr>"
proof -
  let ?L = "int (length payload)"
  have L: "0 \<le> ?L" "?L < 2 ^ 32 - 36" using assms by simp_all
  obtain header where h: "create_wav_header ?L 24000 1 2 = Inr header"
    and hdef: "header = ascii ''RIFF'' @ le_digits 4 (?L + 36) @ ascii ''WAVE'' @ ascii ''fmt ''
                @ le_digits 4 16 @ le_digits 2 1 @ le_digits 2 1 @ le_digits 4 24000
                @ le_digits 4 48000 @ le_digits 2 2 @ le_digits 2 16
                @ ascii ''data'' @ le_digits 4 ?L"
    using create_wav_header_default [OF L] by blast
  have len: "length header = 44"
    using create_wav_header_default_length [OF L h] .
  have fr: "wav_frame payload = Inr (header @ payload)"
    by (simp add: wav_frame_def RECEIVE_SAMPLE_RATE_def h bindE_def)
  have ps: "parse_wav_header (header @ payload) =
             Some \<lparr> wav_riff_size = ?L + 36, wav_fmt_size = 16, wav_audio_format = 1,
                    wav_channels = 1, wav_sample_rate = 24000, wav_byte_rate = 24000 * 1 * 2,
                    wav_block_align = 1 * 2, wav_bits_per_sample = 16, wav_data_length = ?L \<rparr>"
    unfolding hdef using parse_framed [OF L, of payload] by simp
  show ?thesis
    using h len fr ps by (intro exI [of _ header]) (simp add: RECEIVE_SAMPLE_RATE_def)
qed

theorem wav_frame_roundtrip_witness:
  "int (length [1, 2, 3, 4 :: byte]) < 2 ^ 32 - 36
   \<and> wav_frame [1, 2, 3, 4] =
       Inr ([82,73,70,70,40,0,0,0,87,65,86,69,102,109,116,32,16,0,0,0,1,0,1,0,
             192,93,0,0,128,187,0,0,2,0,16,0,100,97,116,97,4,0,0,0] @ [1, 2, 3, 4])
   \<and> parse_wav_header
        ([82,73,70,70,40,0,0,0,87,65,86,69,102,109,116,32,16,0,0,0,1,0,1,0,
          192,93,0,0,128,187,0,0,2,0,16,0,100,97,116,97,4,0,0,0] @ [1, 2, 3, 4]) =
       Some \<lparr> wav_riff_size = 40, wav_fmt_size = 16, wav_audio_format = 1, wav_channels = 1,
              wav_sample_rate = 24000, wav_byte_rate = 48000, wav_block_align = 2,
              wav_bits_per_sample = 16, wav_data_length = 4 \<rparr>"
proof -
  have hyp: "int (length [1, 2, 3, 4 :: byte]) < 2 ^ 32 - 36" by simp
  have hd: "create_wav_header 4 24000 1 2 =
      Inr [82,73,70,70,40,0,0,0,87,65,86,69,102,109,116,32,16,0,0,0,1,0,1,0,
           192,93,0,0,128,187,0,0,2,0,16,0,100,97,116,97,4,0,0,0]"
    by (simp add: create_wav_header_def to_bytes_def bindE_def ascii_def numeral_eq_Suc)
  from wav_frame_roundtrip [OF hyp] hd show ?thesis
    by (auto simp: RECEIVE_SAMPLE_RATE_def)
qed

text \<open>
  The claim as written, for every payload, fails at a payload of \<open>2^32 - 36\<close> bytes: the
  RIFF chunk size no longer fits its four bytes and the framer raises.
\<close>

theorem wav_frame_overflow_counterexample:
  "wav_frame (replicate 4294967260 0) = Inl (OverflowError ''int too big to convert'')"
  by (simp add: wav_frame_def create_wav_header_def to_bytes_def bindE_def
        RECEIVE_SAMPLE_RATE_def)

text \<open>
  C10. With the default sample rate, channel count and sample width, the framer returns a
  header of exactly 44 bytes for every \<open>data_length\<close> from 0 to \<open>2^32 - 37\<close>, and raises
  \<open>OverflowError\<close> for every \<open>data_length\<close> from \<open>2^32 - 36\<close> on; it returns a header exactly
  when \<open>0 \<le> data_length < 2^32 - 36\<close>.
\<close>

theorem create_wav_header_partial:
  "(0 \<le> n \<and> n \<le> 2 ^ 32 - 37 \<longrightarrow>
      (\<exists>header. create_wav_header n 24000 1 2 = Inr header \<and> length header = 44))
   \<and> (2 ^ 32 - 36 \<le> n \<longrightarrow>
        create_wav_header n 24000 1 2 = Inl (OverflowError ''int too big to convert''))
   \<and> ((\<exists>header. create_wav_header n 24000 1 2 = Inr header)
        \<longleftrightarrow> 0 \<le> n \<and> n < 2 ^ 32 - 36)"
proof (intro conjI impI)
  assume a: "0 \<le> n \<and> n \<le> 2 ^ 32 - 37"
  then have L: "0 \<le> n" "n < 2 ^ 32 - 36" by simp_all
  from create_wav_header_default [OF L] create_wav_header_default_length [OF L]
  show "\<exists>header. create_wav_header n 24000 1 2 = Inr header \<and> length header = 44"
    by blast
next
  assume "2 ^ 32 - 36 \<le> n"
  then show "create_wav_header n 24000 1 2 = Inl (OverflowError ''int too big to convert'')"
    by (rule create_wav_header_too_long)
next
  show "(\<exists>header. create_wav_header n 24000 1 2 = Inr header)
        \<longleftrightarrow> 0 \<le> n \<and> n < 2 ^ 32 - 36"
  proof
    assume ex: "\<exists>header. create_wav_header n 24000 1 2 = Inr header"
    show "0 \<le> n \<and> n < 2 ^ 32 - 36"
    proof (rule ccontr)
      assume "\<not> (0 \<le> n \<and> n < 2 ^ 32 - 36)"
      then consider "n < 0" | "2 ^ 32 - 36 \<le> n" by linarith
      then have "\<exists>e. create_wav_header n 24000 1 2 = Inl e"
        by cases (simp_all add: create_wav_header_negative create_wav_header_too_long)
      with ex show False by auto
    qed
  next
    assume "0 \<le> n \<and> n < 2 ^ 32 - 36"
    then show "\<exists>header. create_wav_header n 24000 1 2 = Inr header"
      using create_wav_header_default by blast
  qed
qed

theorem create_wav_header_partial_witness:
  "(\<exists>header. create_wav_header 100 24000 1 2 = Inr header \<and> length header = 44)
   \<and> create_wav_header 4294967260 24000 1 2 = Inl (OverflowError ''int too big to convert'')"
  using create_wav_header_partial [of 100] create_wav_header_partial [of 4294967260]
  by simp

section \<open>Properties of the engine\<close>

lemma engine_ok_init: "engine_ok AudioLoop_init"
  by (simp add: engine_ok_def AudioLoop_init_def)

lemma connect_loop_entered:
  assumes "int k < m" "upstream k = Entered c h"
  shows "connect_loop upstream m k s =
           (True, s\<lparr>session_ctx := Some c, session := Some h, is_running := True\<rparr>,
            [Log Info (''Connecting to Gemini API (attempt '' @ str_nat (k + 1) @ '')''),
             Connect True, SetRunning True, Log Info ''Successfully connected to Gemini API''])"
  using assms by (subst connect_loop.simps) simp

lemma connect_loop_failed:
  assumes "int k < m" "upstream k = Failed c e"
  shows "connect_loop upstream m k s =
           (case connect_loop upstream m (k + 1)
                   (s\<lparr>session_ctx := (case c of None \<Rightarrow> session_ctx s | Some x \<Rightarrow> Some x)\<rparr>) of
              (r, s', evs) \<Rightarrow>
                (r, s',
                 [Log Info (''Connecting to Gemini API (attempt '' @ str_nat (k + 1) @ '')''),
                  Connect False,
                  Log Error (''Connection attempt '' @ str_nat (k + 1) @ '' failed: '' @ e),
                  Sleep 1000] @ evs))"
  using assms by (subst connect_loop.simps) simp

lemma connect_loop_exhausted:
  assumes "\<not> int k < m"
  shows "connect_loop upstream m k s =
           (False, s, [Log Error ''Failed to connect to Gemini API after maximum retries''])"
  using assms by (subst connect_loop.simps) simp

lemma connect_loop_attempts:
  "connect_attempts (snd (snd (connect_loop upstream m k s))) \<le> nat (m - int k)"
proof (induction upstream m k s rule: connect_loop.induct)
  case (1 upstream m k s)
  show ?case
  proof (cases "int k < m")
    case False
    then show ?thesis by (simp add: connect_loop_exhausted connect_attempts_def)
  next
    case lt: True
    show ?thesis
    proof (cases "upstream k")
      case (Entered c h)
      with lt show ?thesis by (simp add: connect_loop_entered connect_attempts_def)
    next
      case (Failed c e)
      from "1.IH" [OF lt Failed]
      have "connect_attempts (snd (snd (connect_loop upstream m (k + 1)
              (s\<lparr>session_ctx := (case c of None \<Rightarrow> session_ctx s | Some x \<Rightarrow> Some x)\<rparr>))))
            \<le> nat (m - int (k + 1))" .
      with lt Failed show ?thesis
        by (auto simp: connect_loop_failed connect_attempts_def split: prod.splits)
    qed
  qed
qed

lemma connect_loop_engine_ok:
  "engine_ok s \<Longrightarrow> engine_ok (fst (snd (connect_loop upstream m k s)))"
proof (induction upstream m k s rule: connect_loop.induct)
  case (1 upstream m k s)
  show ?case
  proof (cases "int k < m")
    case False
    with "1.prems" show ?thesis by (simp add: connect_loop_exhausted)
  next
    case lt: True
    show ?thesis
    proof (cases "upstream k")
      case (Entered c h)
      with lt show ?thesis by (simp add: connect_loop_entered engine_ok_def)
    next
      case (Failed c e)
      have "engine_ok (s\<lparr>session_ctx := (case c of None \<Rightarrow> session_ctx s | Some x \<Rightarrow> Some x)\<rparr>)"
        using "1.prems" by (auto simp: engine_ok_def split: option.splits)
      from "1.IH" [OF lt Failed this] lt Failed show ?thesis
        by (auto simp: connect_loop_failed split: prod.splits)
    qed
  qed
qed

text \<open>
  C3. With \<open>max_retries = 3\<close>, \<open>connect_with_retry\<close> makes at most three connect attempts.
  When the service fails the first two attempts and accepts the third, three attempts are
  made, the call returns \<open>True\<close> and the running flag is set. When the service fails all three
  attempts, the call returns \<open>False\<close> after exactly three attempts and leaves the session
  handle and the running flag as they were (absent and false on a new engine). A sleep
  of one second follows every failed attempt, so one lies between any two attempts.
\<close>

theorem connect_with_retry_policy:
  "(upstream 0 = Failed c0 e0 \<and> upstream 1 = Failed c1 e1 \<and> upstream 2 = Entered c h \<longrightarrow>
      (\<exists>s' evs. connect_with_retry upstream MAX_RETRIES s = (True, s', evs)
         \<and> is_running s' \<and> session s' = Some h
         \<and> connect_attempts evs = 3
         \<and> effects evs = [Connect False, Sleep 1000, Connect False, Sleep 1000,
                           Connect True, SetRunning True]))
   \<and> (upstream 0 = Failed c0 e0 \<and> upstream 1 = Failed c1 e1 \<and> upstream 2 = Failed c2 e2 \<longrightarrow>
      (\<exists>s' evs. connect_with_retry upstream MAX_RETRIES s = (False, s', evs)
         \<and> session s' = session s \<and> is_running s' = is_running s
         \<and> connect_attempts evs = 3
         \<and> effects evs = [Connect False, Sleep 1000, Connect False, Sleep 1000,
                           Connect False, Sleep 1000]))
   \<and> connect_attempts (snd (snd (connect_with_retry upstream MAX_RETRIES s))) \<le> 3"
proof (intro conjI impI)
  assume a: "upstream 0 = Failed c0 e0 \<and> upstream 1 = Failed c1 e1 \<and> upstream 2 = Entered c h"
  then have u: "upstream 0 = Failed c0 e0" "upstream (Suc 0) = Failed c1 e1"
    "upstream (Suc (Suc 0)) = Entered c h" by (simp_all add: numeral_2_eq_2)
  show "\<exists>s' evs. connect_with_retry upstream MAX_RETRIES s = (True, s', evs)
         \<and> is_running s' \<and> session s' = Some h
         \<and> connect_attempts evs = 3
         \<and> effects evs = [Connect False, Sleep 1000, Connect False, Sleep 1000,
                           Connect True, SetRunning True]"
    by (simp add: connect_with_retry_def MAX_RETRIES_def connect_loop_failed [where k = 0]
          connect_loop_failed [where k = "Suc 0"] connect_loop_entered [where k = "Suc (Suc 0)"] u
          effects_def connect_attempts_def)
next
  assume a: "upstream 0 = Failed c0 e0 \<and> upstream 1 = Failed c1 e1 \<and> upstream 2 = Failed c2 e2"
  then have u: "upstream 0 = Failed c0 e0" "upstream (Suc 0) = Failed c1 e1"
    "upstream (Suc (Suc 0)) = Failed c2 e2" by (simp_all add: numeral_2_eq_2)
  show "\<exists>s' evs. connect_with_retry upstream MAX_RETRIES s = (False, s', evs)
         \<and> session s' = session s \<and> is_running s' = is_running s
         \<and> connect_attempts evs = 3
         \<and> effects evs = [Connect False, Sleep 1000, Connect False, Sleep 1000,
                           Connect False, Sleep 1000]"
    by (simp add: connect_with_retry_def MAX_RETRIES_def connect_loop_failed [where k = 0]
          connect_loop_failed [where k = "Suc 0"] connect_loop_failed [where k = "Suc (Suc 0)"]
          connect_loop_exhausted [where k = "Suc (Suc (Suc 0))"] u
          effects_def connect_attempts_def)
next
  show "connect_attempts (snd (snd (connect_with_retry upstream MAX_RETRIES s))) \<le> 3"
    using connect_loop_attempts [of upstream 3 0 s]
    by (simp add: connect_with_retry_def MAX_RETRIES_def)
qed

theorem connect_with_retry_policy_witness:
  "(\<exists>s' evs. connect_with_retry (\<lambda>k. if k < 2 then Failed None ''refused'' else Entered 7 9)
                 MAX_RETRIES AudioLoop_init = (True, s', evs)
         \<and> is_running s' \<and> session s' = Some 9
         \<and> connect_attempts evs = 3
         \<and> effects evs = [Connect False, Sleep 1000, Connect False, Sleep 1000,
                           Connect True, SetRunning True])
   \<and> (\<exists>s' evs. connect_with_retry (\<lambda>k. Failed None ''refused'') MAX_RETRIES AudioLoop_init
                   = (False, s', evs)
         \<and> session s' = None \<and> \<not> is_running s'
         \<and> connect_attempts evs = 3
         \<and> effects evs = [Connect False, Sleep 1000, Connect False, Sleep 1000,
                           Connect False, Sleep 1000])"
  using connect_with_retry_policy
          [where upstream = "\<lambda>k. if k < 2 then Failed None ''refused'' else Entered 7 9"
             and ?c0.0 = None and ?e0.0 = "''refused''" and ?c1.0 = None and ?e1.0 = "''refused''"
             and c = 7 and h = 9 and s = AudioLoop_init]
        connect_with_retry_policy
          [where upstream = "\<lambda>k. Failed None ''refused''"
             and ?c0.0 = None and ?e0.0 = "''refused''" and ?c1.0 = None and ?e1.0 = "''refused''"
             and ?c2.0 = None and ?e2.0 = "''refused''" and s = AudioLoop_init]
  by (simp add: AudioLoop_init_def)

lemma drain_empty [simp]: "drain q = []"
  by (induction q) simp_all

lemma stop_engine_ok: "engine_ok s \<Longrightarrow> engine_ok (fst (stop aexit_error s))"
  by (auto simp: stop_def engine_ok_def clear_queues_def Let_def split: option.splits)

text \<open>
  C6. \<open>stop\<close> always returns. It clears the running flag first, then sleeps 500 ms, then
  closes the upstream context if the engine is connected. Whether or not closing raises,
  the engine ends with the running flag false, no session handle, and both queues empty.
\<close>

theorem stop_completes:
  assumes "engine_ok s"
  shows "\<exists>s' evs. stop aexit_error s = (s', evs)
           \<and> \<not> is_running s' \<and> session s' = None
           \<and> audio_in_queue s' = [] \<and> out_queue s' = []
           \<and> effects evs =
               [SetRunning False, Sleep 500] @
               (case (session_ctx s, session s) of
                  (Some c, Some h) \<Rightarrow> [Aexit c (aexit_error = None)]
                | _ \<Rightarrow> [])"
  using assms
  by (auto simp: stop_def engine_ok_def clear_queues_def effects_def Let_def
           split: option.splits)

theorem stop_completes_witness:
  "engine_ok \<lparr> session = Some 9, session_ctx = Some 7, is_running = True,
               audio_in_queue = [[1, 2]], out_queue = [\<lparr>frame_data = [3], mime_type = ''audio/pcm''\<rparr>] \<rparr>
   \<and> stop (Some ''closed twice'')
        \<lparr> session = Some 9, session_ctx = Some 7, is_running = True,
          audio_in_queue = [[1, 2]], out_queue = [\<lparr>frame_data = [3], mime_type = ''audio/pcm''\<rparr>] \<rparr>
     = (\<lparr> session = None, session_ctx = None, is_running = False,
          audio_in_queue = [], out_queue = [] \<rparr>,
        [Log Info ''Stopping audio processing'', SetRunning False, Sleep 500,
         Log Info ''Closing Gemini API session'', Aexit 7 False,
         Log Error ''Error closing session: closed twice'',
         Log Info ''Audio processing stopped completely''])"
proof -
  let ?s = "\<lparr> session = Some 9, session_ctx = Some 7, is_running = True,
               audio_in_queue = [[1, 2 :: byte]],
               out_queue = [\<lparr>frame_data = [3 :: byte], mime_type = ''audio/pcm''\<rparr>] \<rparr>"
  have ok: "engine_ok ?s" by (simp add: engine_ok_def)
  from stop_completes [OF ok, of "Some ''closed twice''"] ok show ?thesis
    by (simp add: stop_def clear_queues_def)
qed

subsection \<open>Send loop\<close>

lemma distinct_prefix: "distinct xs \<Longrightarrow> prefix ys xs \<Longrightarrow> distinct ys"
  by (auto simp: prefix_def)

lemma send_loop_stopped:
  "\<not> is_running s \<Longrightarrow> forwarded (snd (snd (send_loop sch s))) = []"
  by (induction sch s rule: send_loop.induct) (simp_all add: enqueue_frame_def)

lemma send_loop_prefix:
  "prefix (forwarded (snd (snd (send_loop sch s)))) (out_queue s @ offered sch)"
proof (induction sch s rule: send_loop.induct)
  case (1 s)
  show ?case by simp
next
  case (2 f sch s)
  show ?case
  proof (cases "is_running s")
    case True
    with "2.IH" show ?thesis by (simp add: enqueue_frame_def)
  next
    case False
    then show ?thesis by (simp add: enqueue_frame_def send_loop_stopped)
  qed
next
  case (3 sch s)
  show ?case by (simp add: send_loop_stopped)
next
  case (4 r sch s)
  show ?case
  proof (cases "is_running s")
    case False
    then show ?thesis by simp
  next
    case run: True
    show ?thesis
    proof (cases "out_queue s")
      case Nil
      with run "4.IH"(1) show ?thesis by (simp add: case_prod_beta)
    next
      case (Cons content rest)
      show ?thesis
      proof (cases r)
        case None
        with run Cons "4.IH"(2) [of content rest] show ?thesis
          by (simp add: case_prod_beta)
      next
        case (Some e)
        with run Cons show ?thesis by simp
      qed
    qed
  qed
qed

lemma send_loop_conserves:
  "is_running s \<Longrightarrow> undisturbed sch \<Longrightarrow>
     fst (send_loop sch s) = Looping
   \<and> is_running (fst (snd (send_loop sch s)))
   \<and> forwarded (snd (snd (send_loop sch s))) @ out_queue (fst (snd (send_loop sch s)))
       = out_queue s @ offered sch"
proof (induction sch s rule: send_loop.induct)
  case (1 s)
  then show ?case by simp
next
  case (2 f sch s)
  then show ?case by (simp add: enqueue_frame_def)
next
  case (3 sch s)
  then show ?case by simp
next
  case (4 r sch s)
  then have r: "r = None" and u: "undisturbed sch" and run: "is_running s" by simp_all
  show ?case
  proof (cases "out_queue s")
    case Nil
    with run u "4.IH"(1) show ?thesis by (simp add: case_prod_beta)
  next
    case (Cons content rest)
    with run u r "4.IH"(2) [of content rest] show ?thesis
      by (simp add: case_prod_beta)
  qed
qed

lemma send_loop_one_at_a_time:
  "length (forwarded (snd (snd (send_loop sch s)))) \<le> polls sch"
proof (induction sch s rule: send_loop.induct)
  case (4 r sch s)
  show ?case
  proof (cases "is_running s")
    case False
    then show ?thesis by simp
  next
    case run: True
    show ?thesis
    proof (cases "out_queue s")
      case Nil
      with run "4.IH"(1) show ?thesis by (simp add: case_prod_beta)
    next
      case (Cons content rest)
      show ?thesis
      proof (cases r)
        case None
        with run Cons "4.IH"(2) [of content rest] show ?thesis
          by (simp add: case_prod_beta)
      next
        case (Some e)
        with run Cons show ?thesis by simp
      qed
    qed
  qed
qed simp_all

lemma send_loop_append:
  "fst (send_loop sch1 s) = Looping \<Longrightarrow>
     send_loop (sch1 @ sch2) s =
       (case send_loop sch2 (fst (snd (send_loop sch1 s))) of
          (st, s', evs) \<Rightarrow> (st, s', snd (snd (send_loop sch1 s)) @ evs))"
proof (induction sch1 s rule: send_loop.induct)
  case (1 s)
  show ?case by simp
next
  case (2 f sch s)
  then show ?case by simp
next
  case (3 sch s)
  then show ?case by simp
next
  case (4 r sch s)
  show ?case
  proof (cases "is_running s")
    case False
    with "4.prems" show ?thesis by simp
  next
    case run: True
    show ?thesis
    proof (cases "out_queue s")
      case Nil
      with run "4.prems" "4.IH"(1) show ?thesis by (simp add: case_prod_beta)
    next
      case (Cons content rest)
      show ?thesis
      proof (cases r)
        case None
        with run Cons "4.prems" "4.IH"(2) [of content rest] show ?thesis
          by (simp add: case_prod_beta)
      next
        case (Some e)
        with run Cons "4.prems" show ?thesis by simp
      qed
    qed
  qed
qed

lemma forwarded_append [simp]: "forwarded (xs @ ys) = forwarded xs @ forwarded ys"
  by (induction xs rule: forwarded.induct) simp_all

lemma send_loop_flush:
  "is_running s \<Longrightarrow> length (out_queue s) \<le> n \<Longrightarrow>
     forwarded (snd (snd (send_loop (replicate n (Poll None)) s))) = out_queue s
   \<and> out_queue (fst (snd (send_loop (replicate n (Poll None)) s))) = []"
proof (induction n arbitrary: s)
  case 0
  then show ?case by simp
next
  case (Suc n)
  show ?case
  proof (cases "out_queue s")
    case Nil
    with Suc.prems Suc.IH [of s] show ?thesis by (simp add: case_prod_beta)
  next
    case (Cons content rest)
    with Suc.prems Suc.IH [of "s\<lparr>out_queue := rest\<rparr>"] show ?thesis
      by (simp add: case_prod_beta)
  qed
qed

lemma length_forwarded_conserved:
  assumes "is_running s" "undisturbed sch"
  shows "length (out_queue (fst (snd (send_loop sch s)))) \<le> length (out_queue s @ offered sch)"
proof -
  from send_loop_conserves [OF assms]
  have "length (forwarded (snd (snd (send_loop sch s))) @ out_queue (fst (snd (send_loop sch s))))
        = length (out_queue s @ offered sch)" by simp
  then show ?thesis by simp
qed

lemma send_loop_eventually:
  assumes run: "is_running s" and u: "undisturbed sch"
  shows "forwarded (snd (snd (send_loop
             (sch @ replicate (length (out_queue s @ offered sch)) (Poll None)) s)))
         = out_queue s @ offered sch"
proof -
  let ?n = "length (out_queue s @ offered sch)"
  let ?s1 = "fst (snd (send_loop sch s))"
  let ?ev1 = "snd (snd (send_loop sch s))"
  from send_loop_conserves [OF run u]
  have st: "fst (send_loop sch s) = Looping" and run1: "is_running ?s1"
    and cons: "forwarded ?ev1 @ out_queue ?s1 = out_queue s @ offered sch" by simp_all
  have len: "length (out_queue ?s1) \<le> ?n"
    using length_forwarded_conserved [OF run u] .
  from send_loop_flush [OF run1 len]
  have fl: "forwarded (snd (snd (send_loop (replicate ?n (Poll None)) ?s1))) = out_queue ?s1"
    by simp
  have "forwarded (snd (snd (send_loop (sch @ replicate ?n (Poll None)) s)))
        = forwarded ?ev1 @ forwarded (snd (snd (send_loop (replicate ?n (Poll None)) ?s1)))"
    by (simp add: send_loop_append [OF st] case_prod_beta)
  with fl cons show ?thesis by simp
qed

text \<open>
  C7. Whatever the script, the frames the send loop has forwarded upstream are an initial
  segment of the frames enqueued, in the order of enqueueing: nothing is reordered, and no
  enqueued frame is forwarded twice. A pass forwards at most one frame. While no send
  raises and the flag stays set, every enqueued frame is either forwarded or still
  queued, and after as many further passes as there are frames all of them have been
  forwarded, in order.
\<close>

theorem send_realtime_fifo:
  "prefix (forwarded (snd (snd (send_realtime sch s)))) (out_queue s @ offered sch)
   \<and> (distinct (out_queue s @ offered sch) \<longrightarrow>
        distinct (forwarded (snd (snd (send_realtime sch s)))))
   \<and> length (forwarded (snd (snd (send_realtime sch s)))) \<le> polls sch
   \<and> (session s \<noteq> None \<and> is_running s \<and> undisturbed sch \<longrightarrow>
        forwarded (snd (snd (send_realtime sch s))) @ out_queue (fst (snd (send_realtime sch s)))
          = out_queue s @ offered sch
      \<and> forwarded (snd (snd (send_realtime
            (sch @ replicate (length (out_queue s @ offered sch)) (Poll None)) s)))
          = out_queue s @ offered sch)"
proof (cases "session s = None \<or> \<not> is_running s")
  case True
  then show ?thesis by (auto simp: send_realtime_def)
next
  case False
  then have run: "is_running s" and eq: "\<And>x. send_realtime x s = send_loop x s"
    by (auto simp: send_realtime_def)
  show ?thesis
    unfolding eq
    using send_loop_prefix [of sch s] send_loop_one_at_a_time [of sch s]
      send_loop_conserves [OF run, of sch] send_loop_eventually [OF run, of sch]
      distinct_prefix [OF _ send_loop_prefix [of sch s]]
    by blast
qed

theorem send_realtime_fifo_witness:
  "forwarded (snd (snd (send_realtime
       [Offer \<lparr>frame_data = [1], mime_type = ''audio/pcm''\<rparr>,
        Offer \<lparr>frame_data = [2], mime_type = ''audio/pcm''\<rparr>, Poll None]
       \<lparr> session = Some 9, session_ctx = Some 7, is_running = True,
         audio_in_queue = [], out_queue = [] \<rparr>)))
     = [\<lparr>frame_data = [1], mime_type = ''audio/pcm''\<rparr>]
   \<and> out_queue (fst (snd (send_realtime
       [Offer \<lparr>frame_data = [1], mime_type = ''audio/pcm''\<rparr>,
        Offer \<lparr>frame_data = [2], mime_type = ''audio/pcm''\<rparr>, Poll None]
       \<lparr> session = Some 9, session_ctx = Some 7, is_running = True,
         audio_in_queue = [], out_queue = [] \<rparr>)))
     = [\<lparr>frame_data = [2], mime_type = ''audio/pcm''\<rparr>]
   \<and> forwarded (snd (snd (send_realtime
       [Offer \<lparr>frame_data = [1], mime_type = ''audio/pcm''\<rparr>,
        Offer \<lparr>frame_data = [2], mime_type = ''audio/pcm''\<rparr>, Poll None, Poll None, Poll None]
       \<lparr> session = Some 9, session_ctx = Some 7, is_running = True,
         audio_in_queue = [], out_queue = [] \<rparr>)))
     = [\<lparr>frame_data = [1], mime_type = ''audio/pcm''\<rparr>,
        \<lparr>frame_data = [2], mime_type = ''audio/pcm''\<rparr>]"
  using send_realtime_fifo
          [where s = "\<lparr> session = Some 9, session_ctx = Some 7, is_running = True,
                         audio_in_queue = [], out_queue = [] \<rparr>"
             and sch = "[Offer \<lparr>frame_data = [1], mime_type = ''audio/pcm''\<rparr>,
                         Offer \<lparr>frame_data = [2], mime_type = ''audio/pcm''\<rparr>, Poll None]"]
  by (simp add: send_realtime_def enqueue_frame_def)

subsection \<open>Receive loop and broadcast loop\<close>

lemma receive_loop_keeps_flag:
  "is_running (fst (snd (receive_loop turns s))) = is_running s"
proof (induction turns s rule: receive_loop.induct)
  case (1 s)
  show ?case by simp
next
  case (2 responses ending turns s)
  show ?case
  proof (cases "is_running s")
    case False
    then show ?thesis by simp
  next
    case run: True
    show ?thesis
    proof (cases ending)
      case TurnDone
      with run "2.IH"(1) show ?thesis by (simp add: case_prod_beta)
    next
      case Cancelled
      with run show ?thesis by simp
    next
      case (Raised e)
      with run "2.IH"(2) [of e] show ?thesis by (simp add: case_prod_beta)
    qed
  qed
qed

text \<open>
  C2. What the receive loop does when receiving a turn raises. If the text of the error
  does not contain \<open>timeout\<close>, the loop exits, and the running flag is still set: the
  \<open>break\<close> leaves the loop without reaching the handler that clears it. If the text
  contains \<open>timeout\<close>, the loop logs the error, sleeps one second and goes on with the
  next \<open>receive\<close>, the flag unchanged.
\<close>

theorem receive_audio_error_leaves_flag:
  "(session s \<noteq> None \<and> is_running s \<and> \<not> is_timeout e \<longrightarrow>
      fst (receive_audio ((responses, Raised e) # turns) s) = Exited
    \<and> is_running (fst (snd (receive_audio ((responses, Raised e) # turns) s))))
   \<and> (session s \<noteq> None \<and> is_running s \<and> is_timeout e \<longrightarrow>
      receive_audio ((responses, Raised e) # turns) s =
        (case receive_loop turns (s\<lparr>audio_in_queue := audio_in_queue s @ payloads responses\<rparr>) of
           (st, s', evs) \<Rightarrow>
             (st, s', Log Error (''Error receiving audio response: '' @ e) # Sleep 1000 # evs))
    \<and> is_running (fst (snd (receive_audio ((responses, Raised e) # turns) s))))"
proof (intro conjI impI)
  assume a: "session s \<noteq> None \<and> is_running s \<and> \<not> is_timeout e"
  then show "fst (receive_audio ((responses, Raised e) # turns) s) = Exited"
    by (auto simp: receive_audio_def)
  from a show "is_running (fst (snd (receive_audio ((responses, Raised e) # turns) s)))"
    by (auto simp: receive_audio_def)
next
  assume a: "session s \<noteq> None \<and> is_running s \<and> is_timeout e"
  then show "receive_audio ((responses, Raised e) # turns) s =
        (case receive_loop turns (s\<lparr>audio_in_queue := audio_in_queue s @ payloads responses\<rparr>) of
           (st, s', evs) \<Rightarrow>
             (st, s', Log Error (''Error receiving audio response: '' @ e) # Sleep 1000 # evs))"
    by (auto simp: receive_audio_def)
  from a have "receive_audio ((responses, Raised e) # turns) s
                 = receive_loop ((responses, Raised e) # turns) s"
    by (auto simp: receive_audio_def)
  with a show "is_running (fst (snd (receive_audio ((responses, Raised e) # turns) s)))"
    by (simp only: receive_loop_keeps_flag)
qed

lemma is_timeout_examples:
  "\<not> is_timeout ''connection reset by peer''" "is_timeout ''Deadline TimeOut exceeded''"
  by code_simp+

theorem receive_audio_error_leaves_flag_witness:
  "receive_audio [([Some [1, 2]], Raised ''connection reset by peer'')]
     \<lparr> session = Some 9, session_ctx = Some 7, is_running = True,
       audio_in_queue = [], out_queue = [] \<rparr>
   = (Exited,
      \<lparr> session = Some 9, session_ctx = Some 7, is_running = True,
        audio_in_queue = [[1, 2]], out_queue = [] \<rparr>,
      [Log Error ''Error receiving audio response: connection reset by peer''])
   \<and> receive_audio [([], Raised ''Deadline TimeOut exceeded'')]
     \<lparr> session = Some 9, session_ctx = Some 7, is_running = True,
       audio_in_queue = [], out_queue = [] \<rparr>
   = (Looping,
      \<lparr> session = Some 9, session_ctx = Some 7, is_running = True,
        audio_in_queue = [], out_queue = [] \<rparr>,
      [Log Error ''Error receiving audio response: Deadline TimeOut exceeded'', Sleep 1000])"
  using receive_audio_error_leaves_flag
          [where s = "\<lparr> session = Some 9, session_ctx = Some 7, is_running = True,
                         audio_in_queue = [], out_queue = [] \<rparr>"
             and e = "''connection reset by peer''" and responses = "[Some [1, 2]]" and turns = "[]"]
        receive_audio_error_leaves_flag
          [where s = "\<lparr> session = Some 9, session_ctx = Some 7, is_running = True,
                         audio_in_queue = [], out_queue = [] \<rparr>"
             and e = "''Deadline TimeOut exceeded''" and responses = "[]" and turns = "[]"]
        is_timeout_examples
  by (simp add: receive_audio_def)

lemma delivered_broadcast:
  "delivered (broadcast ws_send message clients) =
     map (\<lambda>ws. (ws, message)) (filter (\<lambda>ws. ws_send ws = None) clients)"
  by (induction clients) (simp_all split: option.splits)

lemma delivered_append [simp]: "delivered (xs @ ys) = delivered xs @ delivered ys"
  by (induction xs rule: delivered.induct) simp_all

lemma wav_frame_returns:
  assumes "int (length audio_data) < 2 ^ 32 - 36"
  shows "\<exists>wav_data. wav_frame audio_data = Inr wav_data"
proof -
  have L: "0 \<le> int (length audio_data)" "int (length audio_data) < 2 ^ 32 - 36"
    using assms by simp_all
  show ?thesis
    by (simp add: wav_frame_def RECEIVE_SAMPLE_RATE_def create_wav_header_default [OF L] bindE_def)
qed

text \<open>
  C9. When the broadcast loop takes a chunk that it can frame, the message it sends is the
  audio message whose payload is the 44-byte header followed by the chunk itself; it
  sends it to the registered clients one after the other, and every client whose \<open>send\<close>
  returns receives exactly this message, whichever other clients fail. The registry is
  the same after the pass. With three registered clients of which one fails, the other
  two receive the chunk.
\<close>

theorem play_audio_pass_fan_out:
  assumes "audio_in_queue s = audio_data # rest" "audio_data \<noteq> []"
    and "int (length audio_data) < 2 ^ 32 - 36"
  shows "\<exists>header evs.
           create_wav_header (int (length audio_data)) 24000 1 2 = Inr header
         \<and> length header = 44
         \<and> play_audio_pass ws_send (s, clients) = ((s\<lparr>audio_in_queue := rest\<rparr>, clients), evs)
         \<and> delivered evs =
             map (\<lambda>ws. (ws, \<lparr> msg_type = ''audio'', msg_format = ''audio/wav'',
                               msg_data = header @ audio_data \<rparr>))
               (filter (\<lambda>ws. ws_send ws = None) clients)
         \<and> (\<forall>ws \<in> set clients. ws_send ws = None \<longrightarrow>
               (\<exists>message. (ws, message) \<in> set (delivered evs)
                  \<and> msg_type message = ''audio'' \<and> msg_format message = ''audio/wav''
                  \<and> drop 44 (msg_data message) = audio_data))
         \<and> (length clients = 3 \<and> length (filter (\<lambda>ws. ws_send ws \<noteq> None) clients) = 1
              \<longrightarrow> length (delivered evs) = 2)"
proof -
  have L: "0 \<le> int (length audio_data)" "int (length audio_data) < 2 ^ 32 - 36"
    using assms(3) by simp_all
  obtain header where h: "create_wav_header (int (length audio_data)) 24000 1 2 = Inr header"
    using create_wav_header_default [OF L] by blast
  have len: "length header = 44"
    using create_wav_header_default_length [OF L h] .
  have w: "wav_frame audio_data = Inr (header @ audio_data)"
    by (simp add: wav_frame_def RECEIVE_SAMPLE_RATE_def h bindE_def)
  let ?message = "\<lparr> msg_type = ''audio'', msg_format = ''audio/wav'',
                     msg_data = header @ audio_data \<rparr>"
  let ?evs = "snd (play_audio_pass ws_send (s, clients))"
  have p: "play_audio_pass ws_send (s, clients) = ((s\<lparr>audio_in_queue := rest\<rparr>, clients), ?evs)"
    using assms(1) by (simp add: play_audio_pass_def)
  have d: "delivered ?evs =
             map (\<lambda>ws. (ws, ?message)) (filter (\<lambda>ws. ws_send ws = None) clients)"
    using assms(1,2) w by (simp add: play_audio_pass_def delivered_broadcast audio_envelope_def)
  have each: "\<forall>ws \<in> set clients. ws_send ws = None \<longrightarrow>
               (\<exists>message. (ws, message) \<in> set (delivered ?evs)
                  \<and> msg_type message = ''audio'' \<and> msg_format message = ''audio/wav''
                  \<and> drop 44 (msg_data message) = audio_data)"
  proof (intro ballI impI)
    fix ws assume "ws \<in> set clients" "ws_send ws = None"
    then have "(ws, ?message) \<in> set (delivered ?evs)" by (simp add: d)
    moreover have "drop 44 (msg_data ?message) = audio_data" by (simp add: len)
    ultimately show "\<exists>message. (ws, message) \<in> set (delivered ?evs)
                  \<and> msg_type message = ''audio'' \<and> msg_format message = ''audio/wav''
                  \<and> drop 44 (msg_data message) = audio_data"
      by (intro exI [of _ ?message]) simp
  qed
  have n: "length clients = 3 \<and> length (filter (\<lambda>ws. ws_send ws \<noteq> None) clients) = 1
              \<longrightarrow> length (delivered ?evs) = 2"
    using sum_length_filter_compl [of "\<lambda>ws. ws_send ws = None" clients] by (simp add: d)
  from h len p d each n show ?thesis by blast
qed

theorem play_audio_pass_fan_out_witness:
  "delivered (snd (play_audio_pass (\<lambda>ws. if ws = 2 then Some ''closed'' else None)
       (\<lparr> session = Some 9, session_ctx = Some 7, is_running = True,
          audio_in_queue = [[1, 2]], out_queue = [] \<rparr>, [1, 2, 3])))
     = [(1, \<lparr> msg_type = ''audio'', msg_format = ''audio/wav'',
              msg_data = [82,73,70,70,38,0,0,0,87,65,86,69,102,109,116,32,16,0,0,0,1,0,1,0,
                          192,93,0,0,128,187,0,0,2,0,16,0,100,97,116,97,2,0,0,0, 1, 2] \<rparr>),
        (3, \<lparr> msg_type = ''audio'', msg_format = ''audio/wav'',
              msg_data = [82,73,70,70,38,0,0,0,87,65,86,69,102,109,116,32,16,0,0,0,1,0,1,0,
                          192,93,0,0,128,187,0,0,2,0,16,0,100,97,116,97,2,0,0,0, 1, 2] \<rparr>)]
   \<and> fst (play_audio_pass (\<lambda>ws. if ws = 2 then Some ''closed'' else None)
       (\<lparr> session = Some 9, session_ctx = Some 7, is_running = True,
          audio_in_queue = [[1, 2]], out_queue = [] \<rparr>, [1, 2, 3]))
     = (\<lparr> session = Some 9, session_ctx = Some 7, is_running = True,
          audio_in_queue = [], out_queue = [] \<rparr>, [1, 2, 3])"
proof -
  let ?s = "\<lparr> session = Some 9, session_ctx = Some 7, is_running = True,
              audio_in_queue = [[1, 2 :: byte]], out_queue = [] \<rparr>"
  have h: "audio_in_queue ?s = [1, 2] # []" "[1, 2 :: byte] \<noteq> []"
    "int (length [1, 2 :: byte]) < 2 ^ 32 - 36" by simp_all
  have hd: "create_wav_header 2 24000 1 2 =
      Inr [82,73,70,70,38,0,0,0,87,65,86,69,102,109,116,32,16,0,0,0,1,0,1,0,
           192,93,0,0,128,187,0,0,2,0,16,0,100,97,116,97,2,0,0,0]"
    by (simp add: create_wav_header_def to_bytes_def bindE_def ascii_def numeral_eq_Suc)
  from play_audio_pass_fan_out [OF h, of "\<lambda>ws. if ws = 2 then Some ''closed'' else None" "[1, 2, 3]"]
    hd
  show ?thesis by auto
qed


subsection \<open>The duty cycles keep the engine well formed\<close>

lemma enqueue_frame_engine_ok: "engine_ok s \<Longrightarrow> engine_ok (enqueue_frame f s)"
  by (simp add: enqueue_frame_def engine_ok_def)

lemma send_loop_session:
  "session (fst (snd (send_loop sch s))) = session s
   \<and> session_ctx (fst (snd (send_loop sch s))) = session_ctx s"
  by (induction sch s rule: send_loop.induct)
     (simp_all add: enqueue_frame_def case_prod_beta split: list.splits option.splits)

lemma receive_loop_session:
  "session (fst (snd (receive_loop turns s))) = session s
   \<and> session_ctx (fst (snd (receive_loop turns s))) = session_ctx s"
  by (induction turns s rule: receive_loop.induct)
     (simp_all add: case_prod_beta split: turn_end.splits)

lemma send_loop_engine_ok: "engine_ok s \<Longrightarrow> engine_ok (fst (snd (send_loop sch s)))"
  by (simp add: engine_ok_def send_loop_session)

lemma receive_loop_engine_ok: "engine_ok s \<Longrightarrow> engine_ok (fst (snd (receive_loop turns s)))"
  by (simp add: engine_ok_def receive_loop_session)

lemma play_audio_pass_session:
  "session (fst (fst (play_audio_pass ws_send (s, clients)))) = session s
   \<and> session_ctx (fst (fst (play_audio_pass ws_send (s, clients)))) = session_ctx s"
  by (simp add: play_audio_pass_def split: list.splits)

lemma play_audio_pass_engine_ok:
  "engine_ok s \<Longrightarrow> engine_ok (fst (fst (play_audio_pass ws_send (s, clients))))"
  by (simp add: engine_ok_def play_audio_pass_session)

text \<open>The broadcast loop never writes the registry, however many passes it makes.\<close>

lemma play_audio_pass_registry:
  "snd (fst (play_audio_pass ws_send (s, clients))) = clients"
  by (simp add: play_audio_pass_def split: list.splits)

lemma play_audio_loop_registry:
  "snd (fst (snd (play_audio_loop sch st))) = snd st"
proof (induction sch arbitrary: st)
  case Nil
  show ?case by simp
next
  case (Cons ws_send sch)
  have "snd (fst (play_audio_pass ws_send st)) = snd st"
    using play_audio_pass_registry [of ws_send "fst st" "snd st"] by simp
  with Cons.IH [of "fst (play_audio_pass ws_send st)"] show ?case
    by (simp add: case_prod_beta)
qed


section \<open>Properties of the session manager\<close>

lemma effects_append [simp]: "effects (xs @ ys) = effects xs @ effects ys"
  by (simp add: effects_def)

lemma effects_Nil [simp]: "effects [] = []"
  by (simp add: effects_def)

lemma effects_Cons: "effects (e # evs) = (if is_log e then effects evs else e # effects evs)"
  by (simp add: effects_def)

lemma effects_Cons_Log [simp]: "effects (Log l msg # evs) = effects evs"
  by (simp add: effects_def)

lemma effects_join_thread [simp]: "effects (join_thread env m) = join_thread env m"
  by (simp add: join_thread_def effects_def split: option.splits)

lemma effects_close_all [simp]: "effects (close_all raises clients) = close_all raises clients"
  by (induction clients) (simp_all add: effects_def)

lemma effects_stop:
  "effects (snd (stop aexit_error s)) =
     [SetRunning False, Sleep 500] @
     (case (session_ctx s, session s) of
        (Some c, Some h) \<Rightarrow> [Aexit c (aexit_error = None)]
      | _ \<Rightarrow> [])"
  by (auto simp: stop_def effects_def Let_def split: option.splits)

lemma stop_result:
  "engine_ok s \<Longrightarrow>
     \<not> is_running (fst (stop aexit_error s)) \<and> session (fst (stop aexit_error s)) = None
   \<and> audio_in_queue (fst (stop aexit_error s)) = [] \<and> out_queue (fst (stop aexit_error s)) = []"
  by (auto simp: stop_def engine_ok_def clear_queues_def Let_def split: option.splits)

subsection \<open>The handlers keep the globals well formed\<close>

lemma manager_init_ok: "manager_ok env manager_init"
  by (simp add: manager_ok_def manager_init_def)

lemma start_voice_manager_ok:
  "manager_ok env m \<Longrightarrow> manager_ok env (fst (snd (start_voice env req m)))"
  by (auto simp: start_voice_def retire_existing_def launch_session_def create_audio_loop_def
        start_thread_def manager_ok_def engine_ok_init case_prod_beta
      split: option.splits sum.splits)

lemma terminate_voice_manager_ok:
  "manager_ok env m \<Longrightarrow> manager_ok env (fst (snd (terminate_voice env req m)))"
  by (auto simp: terminate_voice_def manager_ok_def case_prod_beta split: option.splits)

lemma ws_open_manager_ok:
  "manager_ok env m \<Longrightarrow> manager_ok env (fst (snd (ws_open env ws m)))"
  by (auto simp: ws_open_def ws_register_def create_audio_loop_def start_thread_def
        manager_ok_def engine_ok_init Let_def
      split: option.splits sum.splits)

lemma ws_handle_message_manager_ok:
  "manager_ok env m \<Longrightarrow> manager_ok env (fst (snd (ws_handle_message env msg m)))"
proof (cases msg)
  case ControlStop
  assume "manager_ok env m"
  with ControlStop show ?thesis
    using stop_engine_ok [of _ "aexit_raises env"]
    by (auto simp: manager_ok_def case_prod_beta split: option.splits)
qed (auto simp: manager_ok_def put_frame_def enqueue_frame_engine_ok split: option.splits)

lemma ws_close_manager_ok:
  "manager_ok env m \<Longrightarrow> manager_ok env (fst (ws_close err ws m))"
  by (simp add: ws_close_def ws_deregister_def manager_ok_def)

text \<open>So does the background thread when it connects the current engine.\<close>

lemma connect_with_retry_manager_ok:
  assumes "manager_ok env m" "audio_loop m = Some e"
  shows "manager_ok env
           (m\<lparr>audio_loop := Some (fst (snd (connect_with_retry upstream max_retries e)))\<rparr>)"
  using assms connect_loop_engine_ok [of e upstream max_retries 0]
  by (simp add: manager_ok_def connect_with_retry_def)

subsection \<open>WebSocket endpoint\<close>

lemma ws_register_member: "ws \<in> set (ws_clients (ws_register ws m))"
  by (simp add: ws_register_def)

lemma ws_register_distinct:
  "distinct (ws_clients m) \<Longrightarrow> distinct (ws_clients (ws_register ws m))"
  by (simp add: ws_register_def)

lemma ws_open_clients: "ws_clients (fst (snd (ws_open env ws m))) = ws_clients (ws_register ws m)"
  by (auto simp: ws_open_def Let_def start_thread_def ws_register_def
           split: option.splits sum.splits prod.splits)

lemma ws_handle_message_clients:
  "ws_clients (fst (snd (ws_handle_message env msg m))) = ws_clients m"
  by (cases msg) (auto simp: put_frame_def case_prod_beta split: option.splits)

lemma ws_message_loop_clients:
  "ws_clients (fst (snd (ws_message_loop env script closed m))) = ws_clients m"
proof (induction script arbitrary: m)
  case Nil
  show ?case by simp
next
  case (Cons msg rest)
  show ?case
  proof (cases "fst (ws_handle_message env msg m)")
    case None
    then have "ws_message_loop env (msg # rest) closed m =
        (case ws_message_loop env rest closed (fst (snd (ws_handle_message env msg m))) of
           (err, m2, ev2) \<Rightarrow> (err, m2, snd (snd (ws_handle_message env msg m)) @ ev2))"
      by (cases "ws_handle_message env msg m") auto
    then show ?thesis
      using Cons.IH [of "fst (snd (ws_handle_message env msg m))"]
      by (simp add: case_prod_beta ws_handle_message_clients)
  next
    case (Some err)
    then have "ws_message_loop env (msg # rest) closed m =
        (err, fst (snd (ws_handle_message env msg m)), snd (snd (ws_handle_message env msg m)))"
      by (cases "ws_handle_message env msg m") auto
    then show ?thesis by (simp add: ws_handle_message_clients)
  qed
qed

text \<open>A binary payload that cannot be decoded ends the handler; nothing is queued.\<close>

lemma ws_handle_message_undecodable:
  "ws_handle_message env (Undecodable message e) m = (Some (Exception e), m, [])"
  by simp

lemma ws_message_loop_undecodable:
  "ws_message_loop env (Undecodable message e # rest) closed m = (Exception e, m, [])"
  by simp

lemma audio_stream_socket_deregisters:
  "ws \<notin> set (ws_clients (fst (audio_stream_socket env ws script closed m)))"
proof (cases "fst (ws_open env ws m)")
  case None
  then have "audio_stream_socket env ws script closed m =
      (case ws_message_loop env script closed (fst (snd (ws_open env ws m))) of
         (err, m2, ev2) \<Rightarrow>
           (case ws_close err ws m2 of
              (m3, ev3) \<Rightarrow> (m3, snd (snd (ws_open env ws m)) @ ev2 @ ev3)))"
    by (cases "ws_open env ws m") (auto simp: audio_stream_socket_def)
  then show ?thesis
    by (simp add: case_prod_beta ws_close_def ws_deregister_def)
next
  case (Some err)
  then have "audio_stream_socket env ws script closed m =
      (case ws_close err ws (fst (snd (ws_open env ws m))) of
         (m2, ev2) \<Rightarrow> (m2, snd (snd (ws_open env ws m)) @ ev2))"
    by (cases "ws_open env ws m") (auto simp: audio_stream_socket_def)
  then show ?thesis
    by (simp add: case_prod_beta ws_close_def ws_deregister_def)
qed

text \<open>
  C5, as amended. Every connection accepted on the endpoint is added to the registry. If
  there is no engine at that moment, and the process is not in serverless mode and the
  upstream client can be constructed, an engine is created and its thread started. If
  there is an engine, running or not, the handler creates nothing and starts nothing.
  When the handler ends, by disconnect or by an error, the socket is taken off the
  registry, and this step neither stops nor replaces the engine.
\<close>

theorem ws_open_registers_and_starts:
  "ws \<in> set (ws_clients (fst (snd (ws_open env ws m))))
   \<and> (audio_loop m = None \<and> \<not> IN_VERCEL env \<and> client_ctor_error env = None \<longrightarrow>
        fst (ws_open env ws m) = None
      \<and> audio_loop (fst (snd (ws_open env ws m))) = Some AudioLoop_init
      \<and> audio_thread (fst (snd (ws_open env ws m))) = Some (threads_started m)
      \<and> effects (snd (snd (ws_open env ws m))) = [ThreadStart (threads_started m)])
   \<and> (audio_loop m \<noteq> None \<longrightarrow>
        fst (ws_open env ws m) = None
      \<and> audio_loop (fst (snd (ws_open env ws m))) = audio_loop m
      \<and> audio_thread (fst (snd (ws_open env ws m))) = audio_thread m
      \<and> retired (fst (snd (ws_open env ws m))) = retired m
      \<and> effects (snd (snd (ws_open env ws m))) = [])
   \<and> ws \<notin> set (ws_clients (fst (ws_close err ws m)))
   \<and> audio_loop (fst (ws_close err ws m)) = audio_loop m
   \<and> audio_thread (fst (ws_close err ws m)) = audio_thread m
   \<and> retired (fst (ws_close err ws m)) = retired m
   \<and> effects (snd (ws_close err ws m)) = []
   \<and> ws \<notin> set (ws_clients (fst (audio_stream_socket env ws script closed m)))"
proof (intro conjI impI)
  show "ws \<in> set (ws_clients (fst (snd (ws_open env ws m))))"
    by (simp add: ws_open_clients ws_register_member)
next
  assume a: "audio_loop m = None \<and> \<not> IN_VERCEL env \<and> client_ctor_error env = None"
  then have o: "ws_open env ws m =
      (None,
       (ws_register ws m)\<lparr>audio_loop := Some AudioLoop_init,
          audio_thread := Some (threads_started m), threads_started := Suc (threads_started m)\<rparr>,
       [Log Info ''New WebSocket client connected for therapy session'',
        Log Warning ''Client connected but no active therapy session. Starting one.'',
        ThreadStart (threads_started m)])"
    by (simp add: ws_open_def ws_register_def create_audio_loop_def start_thread_def Let_def)
  show "fst (ws_open env ws m) = None"
    "audio_loop (fst (snd (ws_open env ws m))) = Some AudioLoop_init"
    "audio_thread (fst (snd (ws_open env ws m))) = Some (threads_started m)"
    "effects (snd (snd (ws_open env ws m))) = [ThreadStart (threads_started m)]"
    by (simp_all add: o effects_def)
next
  assume a: "audio_loop m \<noteq> None"
  then obtain e where e: "audio_loop m = Some e" by auto
  then have o: "ws_open env ws m =
      (None, ws_register ws m,
       Log Info ''New WebSocket client connected for therapy session'' #
       (if is_running e then []
        else [Log Warning ''Client connected but no active therapy session. Starting one.'']))"
    by (simp add: ws_open_def ws_register_def Let_def)
  show "fst (ws_open env ws m) = None"
    "audio_loop (fst (snd (ws_open env ws m))) = audio_loop m"
    "audio_thread (fst (snd (ws_open env ws m))) = audio_thread m"
    "retired (fst (snd (ws_open env ws m))) = retired m"
    "effects (snd (snd (ws_open env ws m))) = []"
    by (simp_all add: o ws_register_def effects_def)
next
  show "ws \<notin> set (ws_clients (fst (ws_close err ws m)))"
    "audio_loop (fst (ws_close err ws m)) = audio_loop m"
    "audio_thread (fst (ws_close err ws m)) = audio_thread m"
    "retired (fst (ws_close err ws m)) = retired m"
    "effects (snd (ws_close err ws m)) = []"
    by (simp_all add: ws_close_def ws_deregister_def effects_def)
next
  show "ws \<notin> set (ws_clients (fst (audio_stream_socket env ws script closed m)))"
    by (rule audio_stream_socket_deregisters)
qed

theorem ws_open_registers_and_starts_witness:
  "ws_open \<lparr> IN_VERCEL = False, client_ctor_error = None, thread_alive = False,
             aexit_raises = None, ws_close_raises = (=) 2 \<rparr> 6 manager_init
   = (None,
      \<lparr> audio_loop = Some AudioLoop_init, audio_thread = Some 0, ws_clients = [6],
        retired = [], threads_started = 1 \<rparr>,
      [Log Info ''New WebSocket client connected for therapy session'',
       Log Warning ''Client connected but no active therapy session. Starting one.'',
       ThreadStart 0])
   \<and> ws_close (Exception ''Connection closed'') 6
       \<lparr> audio_loop = Some AudioLoop_init, audio_thread = Some 0, ws_clients = [6],
         retired = [], threads_started = 1 \<rparr>
   = (\<lparr> audio_loop = Some AudioLoop_init, audio_thread = Some 0, ws_clients = [],
        retired = [], threads_started = 1 \<rparr>,
      [Log Error ''WebSocket error: Connection closed'',
       Log Info ''WebSocket client disconnected''])"
  using ws_open_registers_and_starts
          [where env = "\<lparr> IN_VERCEL = False, client_ctor_error = None, thread_alive = False,
                           aexit_raises = None, ws_close_raises = (=) 2 \<rparr>"
             and ws = 6 and m = manager_init]
  by (simp add: ws_open_def ws_register_def create_audio_loop_def start_thread_def
        manager_init_def ws_close_def ws_deregister_def)

text \<open>
  The claim as written fails for an engine that exists with its running flag false (after a
  stop command, or while it is still connecting): the handler logs the warning and leaves
  the globals as they are, no engine is created and no thread is started.
\<close>

theorem ws_open_stopped_session_counterexample:
  "ws_open \<lparr> IN_VERCEL = False, client_ctor_error = None, thread_alive = True,
             aexit_raises = None, ws_close_raises = (=) 2 \<rparr> 6
     \<lparr> audio_loop = Some \<lparr> session = None, session_ctx = None, is_running = False,
                           audio_in_queue = [], out_queue = [] \<rparr>,
       audio_thread = Some 0, ws_clients = [], retired = [], threads_started = 1 \<rparr>
   = (None,
      \<lparr> audio_loop = Some \<lparr> session = None, session_ctx = None, is_running = False,
                            audio_in_queue = [], out_queue = [] \<rparr>,
        audio_thread = Some 0, ws_clients = [6], retired = [], threads_started = 1 \<rparr>,
      [Log Info ''New WebSocket client connected for therapy session'',
       Log Warning ''Client connected but no active therapy session. Starting one.''])"
  by (simp add: ws_open_def ws_register_def)

subsection \<open>Terminating\<close>

text \<open>
  C8, as amended. Outside serverless mode, \<open>/terminate_voice\<close> with no engine changes
  nothing and answers \<open>{"status": "terminated"}\<close>. With an engine, it stops the engine
  (flag false, no handle, queues empty), joins the thread for at most two seconds if it is
  alive, closes every registered client, empties the registry, drops the engine and the
  thread, and gives the same answer. In serverless mode it changes nothing and answers
  \<open>{"status": "terminated", "vercel": true}\<close>.
\<close>

theorem terminate_voice_stops:
  "(req_method req = POST \<and> \<not> IN_VERCEL env \<and> audio_loop m = None \<longrightarrow>
      terminate_voice env req m = (Jsonify [(''status'', JString ''terminated'')], m, [Acquire, Release]))
   \<and> (req_method req = POST \<and> manager_ok env m \<and> audio_loop m = Some e \<longrightarrow>
      (\<exists>e' evs.
         terminate_voice env req m =
           (Jsonify [(''status'', JString ''terminated'')],
            m\<lparr>audio_loop := None, audio_thread := None, ws_clients := [],
              retired := retired m @ [e']\<rparr>,
            evs)
       \<and> \<not> is_running e' \<and> session e' = None \<and> audio_in_queue e' = [] \<and> out_queue e' = []
       \<and> effects evs =
           [Acquire, SetRunning False, Sleep 500]
           @ (case (session_ctx e, session e) of
                (Some c, Some h) \<Rightarrow> [Aexit c (aexit_raises env = None)]
              | _ \<Rightarrow> [])
           @ (case audio_thread m of
                None \<Rightarrow> []
              | Some t \<Rightarrow> if thread_alive env then [ThreadJoin t 2000] else [])
           @ close_all (ws_close_raises env) (ws_clients m)
           @ [Release]))
   \<and> (req_method req = POST \<and> IN_VERCEL env \<longrightarrow>
      terminate_voice env req m =
        (Jsonify [(''status'', JString ''terminated''), (''vercel'', JBool True)], m, []))"
proof (intro conjI impI)
  assume "req_method req = POST \<and> \<not> IN_VERCEL env \<and> audio_loop m = None"
  then show "terminate_voice env req m =
      (Jsonify [(''status'', JString ''terminated'')], m, [Acquire, Release])"
    by (simp add: terminate_voice_def)
next
  assume a: "req_method req = POST \<and> manager_ok env m \<and> audio_loop m = Some e"
  then have ok: "engine_ok e" and nv: "\<not> IN_VERCEL env"
    by (auto simp: manager_ok_def)
  let ?e' = "fst (stop (aexit_raises env) e)"
  let ?evs = "Acquire # snd (stop (aexit_raises env) e) @ [Log Info ''Therapy session terminated'']
                @ join_thread env m @ close_all (ws_close_raises env) (ws_clients m) @ [Release]"
  have t: "terminate_voice env req m =
           (Jsonify [(''status'', JString ''terminated'')],
            m\<lparr>audio_loop := None, audio_thread := None, ws_clients := [],
              retired := retired m @ [?e']\<rparr>,
            ?evs)"
    using a nv by (simp add: terminate_voice_def case_prod_beta)
  have ef: "effects ?evs =
           [Acquire, SetRunning False, Sleep 500]
           @ (case (session_ctx e, session e) of
                (Some c, Some h) \<Rightarrow> [Aexit c (aexit_raises env = None)]
              | _ \<Rightarrow> [])
           @ (case audio_thread m of
                None \<Rightarrow> []
              | Some t \<Rightarrow> if thread_alive env then [ThreadJoin t 2000] else [])
           @ close_all (ws_close_raises env) (ws_clients m)
           @ [Release]"
  proof -
    have "effects ?evs =
            Acquire # effects (snd (stop (aexit_raises env) e)) @ join_thread env m
              @ close_all (ws_close_raises env) (ws_clients m) @ [Release]"
      by (simp add: effects_Cons)
    then show ?thesis by (simp add: effects_stop join_thread_def)
  qed
  from t ef stop_result [OF ok, of "aexit_raises env"]
  show "\<exists>e' evs.
         terminate_voice env req m =
           (Jsonify [(''status'', JString ''terminated'')],
            m\<lparr>audio_loop := None, audio_thread := None, ws_clients := [],
              retired := retired m @ [e']\<rparr>,
            evs)
       \<and> \<not> is_running e' \<and> session e' = None \<and> audio_in_queue e' = [] \<and> out_queue e' = []
       \<and> effects evs =
           [Acquire, SetRunning False, Sleep 500]
           @ (case (session_ctx e, session e) of
                (Some c, Some h) \<Rightarrow> [Aexit c (aexit_raises env = None)]
              | _ \<Rightarrow> [])
           @ (case audio_thread m of
                None \<Rightarrow> []
              | Some t \<Rightarrow> if thread_alive env then [ThreadJoin t 2000] else [])
           @ close_all (ws_close_raises env) (ws_clients m)
           @ [Release]"
    by blast
next
  assume "req_method req = POST \<and> IN_VERCEL env"
  then show "terminate_voice env req m =
        (Jsonify [(''status'', JString ''terminated''), (''vercel'', JBool True)], m, [])"
    by (simp add: terminate_voice_def)
qed

theorem terminate_voice_stops_witness:
  "terminate_voice
     \<lparr> IN_VERCEL = False, client_ctor_error = None, thread_alive = True,
       aexit_raises = Some ''closed'', ws_close_raises = (=) 2 \<rparr>
     \<lparr> req_method = POST, host = ''localhost:5000'', is_secure = False \<rparr>
     manager_init
   = (Jsonify [(''status'', JString ''terminated'')], manager_init, [Acquire, Release])
   \<and> manager_ok
       \<lparr> IN_VERCEL = False, client_ctor_error = None, thread_alive = True,
         aexit_raises = Some ''closed'', ws_close_raises = (=) 2 \<rparr>
       \<lparr> audio_loop = Some \<lparr> session = Some 9, session_ctx = Some 7, is_running = True,
                             audio_in_queue = [[1]], out_queue = [] \<rparr>,
         audio_thread = Some 0, ws_clients = [1, 2], retired = [], threads_started = 1 \<rparr>
   \<and> terminate_voice
       \<lparr> IN_VERCEL = False, client_ctor_error = None, thread_alive = True,
         aexit_raises = Some ''closed'', ws_close_raises = (=) 2 \<rparr>
       \<lparr> req_method = POST, host = ''localhost:5000'', is_secure = False \<rparr>
       \<lparr> audio_loop = Some \<lparr> session = Some 9, session_ctx = Some 7, is_running = True,
                             audio_in_queue = [[1]], out_queue = [] \<rparr>,
         audio_thread = Some 0, ws_clients = [1, 2], retired = [], threads_started = 1 \<rparr>
     = (Jsonify [(''status'', JString ''terminated'')],
        \<lparr> audio_loop = None, audio_thread = None, ws_clients = [],
          retired = [\<lparr> session = None, session_ctx = None, is_running = False,
                       audio_in_queue = [], out_queue = [] \<rparr>],
          threads_started = 1 \<rparr>,
        [Acquire, Log Info ''Stopping audio processing'', SetRunning False, Sleep 500,
         Log Info ''Closing Gemini API session'', Aexit 7 False,
         Log Error ''Error closing session: closed'',
         Log Info ''Audio processing stopped completely'',
         Log Info ''Therapy session terminated'',
         ThreadJoin 0 2000, WsClose 1 True, WsClose 2 False, Release])"
  using terminate_voice_stops
          [where env = "\<lparr> IN_VERCEL = False, client_ctor_error = None, thread_alive = True,
                           aexit_raises = Some ''closed'', ws_close_raises = (=) 2 \<rparr>"
             and req = "\<lparr> req_method = POST, host = ''localhost:5000'', is_secure = False \<rparr>"
             and m = manager_init]
  by (simp add: terminate_voice_def manager_init_def manager_ok_def engine_ok_def stop_def
        clear_queues_def join_thread_def)

text \<open>
  The claim as written fails in serverless mode, where no engine ever exists: the answer
  carries a second member and is not the body \<open>{"status": "terminated"}\<close>.
\<close>

theorem terminate_voice_vercel_counterexample:
  "fst (terminate_voice
          \<lparr> IN_VERCEL = True, client_ctor_error = None, thread_alive = False,
            aexit_raises = None, ws_close_raises = (=) 2 \<rparr>
          \<lparr> req_method = POST, host = ''localhost:5000'', is_secure = False \<rparr>
          manager_init)
   = Jsonify [(''status'', JString ''terminated''), (''vercel'', JBool True)]
   \<and> fst (terminate_voice
          \<lparr> IN_VERCEL = True, client_ctor_error = None, thread_alive = False,
            aexit_raises = None, ws_close_raises = (=) 2 \<rparr>
          \<lparr> req_method = POST, host = ''localhost:5000'', is_secure = False \<rparr>
          manager_init)
     \<noteq> Jsonify [(''status'', JString ''terminated'')]"
  by (simp add: terminate_voice_def)

subsection \<open>Starting while an engine exists\<close>

lemma retire_existing_some:
  assumes "audio_loop m = Some old"
  shows "retire_existing env m =
           (m\<lparr>audio_loop := None, audio_thread := None,
              retired := retired m @ [fst (stop (aexit_raises env) old)]\<rparr>,
            snd (stop (aexit_raises env) old)
              @ [Log Info ''Existing therapy session terminated before starting new one'']
              @ join_thread env m @ [Sleep 500])"
  using assms by (simp add: retire_existing_def case_prod_beta)

lemma launch_session_created:
  assumes "\<not> IN_VERCEL env" "client_ctor_error env = None"
  shows "launch_session env req m =
           (Jsonify
              [(''status'', JString ''started''),
               (''websocket'',
                JObject
                  [(''url'',
                    JString ((if is_secure req then ''wss://'' else ''ws://'')
                               @ host req @ ''/audio-stream'')),
                   (''protocol'', JString ''audio-stream'')])],
            m\<lparr>audio_loop := Some AudioLoop_init, audio_thread := Some (threads_started m),
              threads_started := Suc (threads_started m)\<rparr>,
            [ThreadStart (threads_started m), Log Info ''Therapy session started''])"
  using assms by (simp add: launch_session_def create_audio_loop_def start_thread_def)

lemma launch_session_failed:
  assumes "\<not> IN_VERCEL env" "client_ctor_error env = Some e"
  shows "launch_session env req m =
           (Jsonify [(''status'', JString ''error''), (''message'', JString e)],
            m, [Log Error (''Error starting voice service: '' @ e)])"
  using assms by (simp add: launch_session_def create_audio_loop_def)

text \<open>The WebSocket handler changes the globals without taking the session lock.\<close>

lemma ws_open_takes_no_lock:
  "Acquire \<notin> set (snd (snd (ws_open env ws m)))"
  by (auto simp: ws_open_def Let_def create_audio_loop_def start_thread_def
           split: option.splits sum.splits)



lemma connect_with_retry_first_attempt:
  "fst (snd (connect_with_retry (Entered c) 3 s)) =
     s\<lparr>session_ctx := Some c, session := Some 0, is_running := True\<rparr>"
  by (simp add: connect_with_retry_def connect_loop_entered)

lemma stop_idle:
  "fst (stop r \<lparr> session = None, session_ctx = None, is_running = False,
                audio_in_queue = [], out_queue = [] \<rparr>)
   = \<lparr> session = None, session_ctx = None, is_running = False,
       audio_in_queue = [], out_queue = [] \<rparr>"
  by (simp add: stop_def clear_queues_def)


end
